theory Spec2Isabelle
  imports Complex_Main "HOL-Library.Word" "HOL-Library.Signed_Division"
begin

section \<open>Values of the two libraries\<close>

text \<open>
  The adapter \<^verbatim>\<open>paragraph_skia.cc\<close> sits between the text-layout library (namespace
  \<^verbatim>\<open>skt\<close>) and the host's display list. Its own code is embedded function by function;
  the objects of the two libraries are records of what the adapter reads from them.
  A C++ member \<^verbatim>\<open>x_\<close> is written \<open>m_x\<close> (a name may not end in an underscore here).
\<close>

type_synonym c_int = "32 word"
type_synonym size_t = nat
type_synonym SkColor = "32 word"

text \<open>
  Ways in which a call does not return normally: signed overflow of an \<^verbatim>\<open>int\<close>
  (undefined behaviour), \<^verbatim>\<open>std::get\<close> on the alternative a variant does not hold,
  a failed \<^verbatim>\<open>FML_DCHECK\<close>, \<^verbatim>\<open>operator[]\<close> of a vector past its end (undefined
  behaviour), and \<^verbatim>\<open>value()\<close> of an empty \<^verbatim>\<open>std::optional\<close>.
\<close>

datatype error =
  SignedOverflow | BadVariantAccess | DCheckFailed | IndexOutOfRange | BadOptionalAccess

text \<open>
  A floating-point value: a finite number, an infinity or a NaN. \<^verbatim>\<open>SkScalar\<close> is a
  \<^verbatim>\<open>float\<close>; every \<^verbatim>\<open>float\<close> is a \<^verbatim>\<open>double\<close>, so the widening
  \<^verbatim>\<open>SkScalarToDouble\<close> keeps the value. The adapter does no arithmetic on these values;
  its one comparison is \<^verbatim>\<open>blur_sigma > 0.0\<close>, false for a NaN. Where a \<^verbatim>\<open>double\<close> is
  handed to a parameter of type \<^verbatim>\<open>SkScalar\<close> it is narrowed to a \<^verbatim>\<open>float\<close>; the
  rounding is the implementation's, and is the parameter \<open>narrow\<close> of the functions that
  do so.
\<close>

datatype fp = Finite real | PlusInfinity | MinusInfinity | NaN

type_synonym SkScalar = fp
type_synonym double = fp

definition SkScalarToDouble :: "SkScalar \<Rightarrow> double" where
  "SkScalarToDouble x = x"

fun greater_than_zero :: "fp \<Rightarrow> bool" where
  "greater_than_zero (Finite r) = (0 < r)"
| "greater_than_zero PlusInfinity = True"
| "greater_than_zero MinusInfinity = False"
| "greater_than_zero NaN = False"

text \<open>\<^verbatim>\<open>size_t(i)\<close> for an \<^verbatim>\<open>int\<close> i, on a 64-bit target: a negative i wraps around.\<close>

definition size_t_of_int :: "c_int \<Rightarrow> size_t" where
  "size_t_of_int i = (if sint i < 0 then nat (2 ^ 64 + sint i) else nat (sint i))"

text \<open>\<^verbatim>\<open>v[i]\<close> on a \<^verbatim>\<open>std::vector\<close>: unchecked, undefined past the end.\<close>

definition vector_at :: "'a list \<Rightarrow> size_t \<Rightarrow> error + 'a" where
  "vector_at v i = (if i < length v then Inr (v ! i) else Inl IndexOutOfRange)"

text \<open>
  Modelled from the spec: \<^verbatim>\<open>FML_DCHECK(condition)\<close> (the macro is not among the sources)
  is a debug-only assertion: in a debug build a false condition aborts, in a release build
  nothing is checked. The build mode is the parameter \<open>debug\<close>.
\<close>

definition FML_DCHECK :: "bool \<Rightarrow> bool \<Rightarrow> error + unit" where
  "FML_DCHECK debug condition = (if debug \<and> \<not> condition then Inl DCheckFailed else Inr ())"

text \<open>\<^verbatim>\<open>SkString::c_str()\<close> read back as a \<^verbatim>\<open>std::string\<close>: the text up to the first NUL.\<close>

definition c_str :: "string \<Rightarrow> string" where
  "c_str s = takeWhile (\<lambda>c. c \<noteq> CHR 0x00) s"

subsection \<open>Font weight and style\<close>

text \<open>
  Modelled from the spec: \<^verbatim>\<open>txt::FontWeight\<close> (font_weight.h is not among the sources) is
  the 0--8 ordinal scale with enumerators \<^verbatim>\<open>w100\<close> (ordinal 0) to \<^verbatim>\<open>w900\<close> (ordinal 8);
  \<^verbatim>\<open>static_cast\<close> to and from \<^verbatim>\<open>int\<close> goes through the ordinal.
\<close>

datatype FontWeight = FontWeight (ordinal: int)

definition w100 :: FontWeight where "w100 = FontWeight 0"
definition w900 :: FontWeight where "w900 = FontWeight 8"

datatype FontStyle = FontStyle_normal | FontStyle_italic

datatype Slant = kUpright_Slant | kItalic_Slant | kOblique_Slant

definition INT_MIN :: int where
  "INT_MIN = - (2 ^ 31)"

definition std_clamp :: "int \<Rightarrow> int \<Rightarrow> int \<Rightarrow> int" where
  "std_clamp v lo hi = (if v < lo then lo else if hi < v then hi else v)"

text \<open>
  \<^verbatim>\<open>GetTxtFontWeight(int font_weight)\<close>. The argument is a 32-bit \<^verbatim>\<open>int\<close>; the
  subtraction \<^verbatim>\<open>font_weight - 100\<close> overflows below \<open>INT_MIN + 100\<close>. The quotient of
  \<^verbatim>\<open>/\<close> truncates towards zero (\<open>sdiv\<close>).
\<close>

definition GetTxtFontWeight :: "c_int \<Rightarrow> error + FontWeight" where
  "GetTxtFontWeight font_weight =
     (if sint font_weight - 100 < INT_MIN then Inl SignedOverflow
      else
        let txt_weight = (sint font_weight - 100) sdiv 100;
            txt_weight = std_clamp txt_weight (ordinal w100) (ordinal w900)
        in Inr (FontWeight txt_weight))"

definition GetTxtFontStyle :: "Slant \<Rightarrow> FontStyle" where
  "GetTxtFontStyle font_slant =
     (if font_slant = kUpright_Slant then FontStyle_normal else FontStyle_italic)"

text \<open>The remapping as the specification words it: clamp the truncated quotient to 0..8.\<close>

definition clamp_spec :: "int \<Rightarrow> int \<Rightarrow> int \<Rightarrow> int" where
  "clamp_spec v lo hi = max lo (min hi v)"

definition weight_ordinal_spec :: "int \<Rightarrow> int" where
  "weight_ordinal_spec w = clamp_spec ((w - 100) sdiv 100) 0 8"

section \<open>The painter adapter\<close>

subsection \<open>Paints and draw primitives\<close>

text \<open>
  Objects the adapter only hands on (a text blob, a path, an immediate \<^verbatim>\<open>SkPaint\<close>, font
  metrics) are identified by a number. A \<^verbatim>\<open>sk_sp<SkTextBlob>\<close> may be null:
  \<open>SkTextBlob option\<close>.
\<close>

datatype SkTextBlob = SkTextBlob nat
datatype SkPath = SkPath nat
datatype SkPaint = SkPaint nat
datatype SkFontMetrics = SkFontMetrics nat
datatype SkRect = SkRect SkScalar SkScalar SkScalar SkScalar

type_synonym SkPoint = "SkScalar \<times> SkScalar"

text \<open>
  The layout library's \<^verbatim>\<open>SkPaintOrID\<close> is \<^verbatim>\<open>std::variant<SkPaint, PaintID>\<close>, with
  \<^verbatim>\<open>PaintID\<close> an \<^verbatim>\<open>int\<close>.
\<close>

datatype SkPaintOrID = HoldsSkPaint SkPaint | HoldsPaintID c_int

definition std_get_PaintID :: "SkPaintOrID \<Rightarrow> error + c_int" where
  "std_get_PaintID paint = (case paint of HoldsPaintID i \<Rightarrow> Inr i | HoldsSkPaint p \<Rightarrow> Inl BadVariantAccess)"

record DashPathEffect =
  fOnLength :: SkScalar
  fOffLength :: SkScalar

record DecorationStyle =
  decor_getColor :: SkColor
  decor_getStrokeWidth :: SkScalar
  decor_getDashPathEffect :: "DashPathEffect option"

datatype DlDrawStyle = kFill | kStroke | kStrokeAndFill
datatype SkBlurStyle = kNormal_SkBlurStyle | kSolid_SkBlurStyle | kOuter_SkBlurStyle | kInner_SkBlurStyle
datatype SkClipOp = kDifference | kIntersect

text \<open>
  \<^verbatim>\<open>DlDashPathEffect::Make(intervals, count, phase)\<close> and
  \<^verbatim>\<open>DlBlurMaskFilter(style, sigma, respect_ctm)\<close>, by their arguments.
\<close>

datatype DlPathEffect = DlDashPathEffect "SkScalar list" SkScalar
datatype DlMaskFilter = DlBlurMaskFilter SkBlurStyle SkScalar bool

text \<open>
  The attributes of a \<^verbatim>\<open>DlPaint\<close> that this file sets. The default-constructed paint
  \<^verbatim>\<open>DlPaint()\<close> is declared outside this file: it is the parameter \<open>paint0\<close> of the
  functions that start from it.
\<close>

record DlPaint =
  paint_DrawStyle :: DlDrawStyle
  paint_AntiAlias :: bool
  paint_Color :: SkColor
  paint_StrokeWidth :: SkScalar
  paint_PathEffect :: "DlPathEffect option"
  paint_MaskFilter :: "DlMaskFilter option"

text \<open>
  Modelled from the spec: the destination display-list builder (its class is not among the
  sources) records the primitives issued against it, in order. A builder is the list of
  the primitives it has received.
\<close>

datatype DlOp =
    DrawTextBlob SkTextBlob SkScalar SkScalar DlPaint
  | DrawRect SkRect DlPaint
  | DrawPath SkPath DlPaint
  | DrawLine SkPoint SkPoint DlPaint
  | ClipRect SkRect SkClipOp bool
  | Translate SkScalar SkScalar
  | Save
  | Restore

type_synonym DisplayListBuilder = "DlOp list"

definition issue :: "DisplayListBuilder \<Rightarrow> DlOp \<Rightarrow> DisplayListBuilder" where
  "issue builder op = builder @ [op]"

subsection \<open>DisplayListParagraphPainter\<close>

record DisplayListParagraphPainter =
  m_builder :: DisplayListBuilder
  m_painter_dl_paints :: "DlPaint list"

definition toDlPaint :: "DlPaint \<Rightarrow> DecorationStyle \<Rightarrow> DlDrawStyle \<Rightarrow> DlPaint" where
  "toDlPaint paint0 decor_style draw_style =
     (let paint = paint0\<lparr>paint_DrawStyle := draw_style\<rparr>;
          paint = paint\<lparr>paint_AntiAlias := True\<rparr>;
          paint = paint\<lparr>paint_Color := decor_getColor decor_style\<rparr>;
          paint = paint\<lparr>paint_StrokeWidth := decor_getStrokeWidth decor_style\<rparr>
      in case decor_getDashPathEffect decor_style of
           Some dash_path_effect \<Rightarrow>
             paint\<lparr>paint_PathEffect :=
               Some (DlDashPathEffect [fOnLength dash_path_effect, fOffLength dash_path_effect]
                  (Finite 0))\<rparr>
         | None \<Rightarrow> paint)"

definition drawTextBlob ::
  "bool \<Rightarrow> DisplayListParagraphPainter \<Rightarrow> SkTextBlob option \<Rightarrow> SkScalar \<Rightarrow> SkScalar \<Rightarrow>
   SkPaintOrID \<Rightarrow> error + DisplayListParagraphPainter" where
  "drawTextBlob debug this blob x y paint =
     (case blob of
        None \<Rightarrow> Inr this
      | Some b \<Rightarrow>
          (case std_get_PaintID paint of
             Inl e \<Rightarrow> Inl e
           | Inr i \<Rightarrow>
               let paint_id = size_t_of_int i in
               (case FML_DCHECK debug (paint_id < length (m_painter_dl_paints this)) of
                  Inl e \<Rightarrow> Inl e
                | Inr _ \<Rightarrow>
                    (case vector_at (m_painter_dl_paints this) paint_id of
                       Inl e \<Rightarrow> Inl e
                     | Inr p \<Rightarrow>
                         Inr (this\<lparr>m_builder := issue (m_builder this) (DrawTextBlob b x y p)\<rparr>)))))"

definition drawTextShadow ::
  "DlPaint \<Rightarrow> DisplayListParagraphPainter \<Rightarrow> SkTextBlob option \<Rightarrow> SkScalar \<Rightarrow> SkScalar \<Rightarrow>
   SkColor \<Rightarrow> SkScalar \<Rightarrow> DisplayListParagraphPainter" where
  "drawTextShadow paint0 this blob x y shadow_color blur_sigma =
     (case blob of
        None \<Rightarrow> this
      | Some b \<Rightarrow>
          let paint = paint0\<lparr>paint_Color := shadow_color\<rparr>;
              paint = (if greater_than_zero blur_sigma
                       then paint\<lparr>paint_MaskFilter :=
                              Some (DlBlurMaskFilter kNormal_SkBlurStyle blur_sigma False)\<rparr>
                       else paint)
          in this\<lparr>m_builder := issue (m_builder this) (DrawTextBlob b x y paint)\<rparr>)"

definition drawRect ::
  "bool \<Rightarrow> DisplayListParagraphPainter \<Rightarrow> SkRect \<Rightarrow> SkPaintOrID \<Rightarrow>
   error + DisplayListParagraphPainter" where
  "drawRect debug this rect paint =
     (case std_get_PaintID paint of
        Inl e \<Rightarrow> Inl e
      | Inr i \<Rightarrow>
          let paint_id = size_t_of_int i in
          (case FML_DCHECK debug (paint_id < length (m_painter_dl_paints this)) of
             Inl e \<Rightarrow> Inl e
           | Inr _ \<Rightarrow>
               (case vector_at (m_painter_dl_paints this) paint_id of
                  Inl e \<Rightarrow> Inl e
                | Inr p \<Rightarrow> Inr (this\<lparr>m_builder := issue (m_builder this) (DrawRect rect p)\<rparr>))))"

definition drawFilledRect ::
  "DlPaint \<Rightarrow> DisplayListParagraphPainter \<Rightarrow> SkRect \<Rightarrow> DecorationStyle \<Rightarrow>
   DisplayListParagraphPainter" where
  "drawFilledRect paint0 this rect decor_style =
     (let paint = toDlPaint paint0 decor_style kFill
      in this\<lparr>m_builder := issue (m_builder this) (DrawRect rect paint)\<rparr>)"

definition drawPath ::
  "DlPaint \<Rightarrow> DisplayListParagraphPainter \<Rightarrow> SkPath \<Rightarrow> DecorationStyle \<Rightarrow>
   DisplayListParagraphPainter" where
  "drawPath paint0 this path decor_style =
     this\<lparr>m_builder := issue (m_builder this) (DrawPath path (toDlPaint paint0 decor_style kStroke))\<rparr>"

definition drawLine ::
  "DlPaint \<Rightarrow> DisplayListParagraphPainter \<Rightarrow> SkScalar \<Rightarrow> SkScalar \<Rightarrow> SkScalar \<Rightarrow> SkScalar \<Rightarrow>
   DecorationStyle \<Rightarrow> DisplayListParagraphPainter" where
  "drawLine paint0 this x0 y0 x1 y1 decor_style =
     this\<lparr>m_builder :=
       issue (m_builder this) (DrawLine (x0, y0) (x1, y1) (toDlPaint paint0 decor_style kStroke))\<rparr>"

definition clipRect :: "DisplayListParagraphPainter \<Rightarrow> SkRect \<Rightarrow> DisplayListParagraphPainter" where
  "clipRect this rect = this\<lparr>m_builder := issue (m_builder this) (ClipRect rect kIntersect False)\<rparr>"

definition translate ::
  "DisplayListParagraphPainter \<Rightarrow> SkScalar \<Rightarrow> SkScalar \<Rightarrow> DisplayListParagraphPainter" where
  "translate this dx dy = this\<lparr>m_builder := issue (m_builder this) (Translate dx dy)\<rparr>"

definition save :: "DisplayListParagraphPainter \<Rightarrow> DisplayListParagraphPainter" where
  "save this = this\<lparr>m_builder := issue (m_builder this) Save\<rparr>"

definition restore :: "DisplayListParagraphPainter \<Rightarrow> DisplayListParagraphPainter" where
  "restore this = this\<lparr>m_builder := issue (m_builder this) Restore\<rparr>"

text \<open>
  The calls the layout library makes on a \<^verbatim>\<open>ParagraphPainter\<close> while it paints. Every
  method returns \<^verbatim>\<open>void\<close>, so what a paragraph paints is a sequence of such calls.
\<close>

datatype PainterCall =
    call_drawTextBlob "SkTextBlob option" SkScalar SkScalar SkPaintOrID
  | call_drawTextShadow "SkTextBlob option" SkScalar SkScalar SkColor SkScalar
  | call_drawRect SkRect SkPaintOrID
  | call_drawFilledRect SkRect DecorationStyle
  | call_drawPath SkPath DecorationStyle
  | call_drawLine SkScalar SkScalar SkScalar SkScalar DecorationStyle
  | call_clipRect SkRect
  | call_translate SkScalar SkScalar
  | call_save
  | call_restore

fun painter_call ::
  "bool \<Rightarrow> DlPaint \<Rightarrow> DisplayListParagraphPainter \<Rightarrow> PainterCall \<Rightarrow>
   error + DisplayListParagraphPainter" where
  "painter_call debug paint0 this (call_drawTextBlob blob x y paint) =
     drawTextBlob debug this blob x y paint"
| "painter_call debug paint0 this (call_drawTextShadow blob x y c blur_sigma) =
     Inr (drawTextShadow paint0 this blob x y c blur_sigma)"
| "painter_call debug paint0 this (call_drawRect rect paint) = drawRect debug this rect paint"
| "painter_call debug paint0 this (call_drawFilledRect rect d) =
     Inr (drawFilledRect paint0 this rect d)"
| "painter_call debug paint0 this (call_drawPath path d) = Inr (drawPath paint0 this path d)"
| "painter_call debug paint0 this (call_drawLine x0 y0 x1 y1 d) =
     Inr (drawLine paint0 this x0 y0 x1 y1 d)"
| "painter_call debug paint0 this (call_clipRect rect) = Inr (clipRect this rect)"
| "painter_call debug paint0 this (call_translate dx dy) = Inr (translate this dx dy)"
| "painter_call debug paint0 this call_save = Inr (save this)"
| "painter_call debug paint0 this call_restore = Inr (restore this)"

fun painter_calls ::
  "bool \<Rightarrow> DlPaint \<Rightarrow> DisplayListParagraphPainter \<Rightarrow> PainterCall list \<Rightarrow>
   error + DisplayListParagraphPainter" where
  "painter_calls debug paint0 this [] = Inr this"
| "painter_calls debug paint0 this (c # cs) =
     (case painter_call debug paint0 this c of
        Inl e \<Rightarrow> Inl e
      | Inr this' \<Rightarrow> painter_calls debug paint0 this' cs)"

section \<open>ParagraphSkia\<close>

subsection \<open>Text styles and line metrics of the two sides\<close>

text \<open>
  What \<^verbatim>\<open>SkiaToTxt\<close> reads from an \<^verbatim>\<open>skt::TextStyle\<close>, by getter. The enumerations that
  are converted by \<^verbatim>\<open>static_cast\<close> (decoration, decoration style, baseline) are kept as
  their integer values on both sides. The style's \<^verbatim>\<open>getHeight\<close> is \<open>getTextHeight\<close>
  here, the paragraph has a \<open>getHeight\<close> of its own.
\<close>

record SkFontStyle =
  weight :: c_int
  width :: c_int
  slant :: Slant

record skt_TextShadow =
  fColor :: SkColor
  fOffset :: SkPoint
  fBlurSigma :: double

record skt_TextStyle =
  getColor :: SkColor
  getDecorationType :: c_int
  getDecorationColor :: SkColor
  getDecorationStyle :: c_int
  getDecorationThicknessMultiplier :: SkScalar
  getFontStyle :: SkFontStyle
  getTextBaseline :: c_int
  getFontFamilies :: "string list"
  getFontSize :: SkScalar
  getLetterSpacing :: SkScalar
  getWordSpacing :: SkScalar
  getTextHeight :: SkScalar
  getLocale :: string
  hasBackground :: bool
  getBackgroundPaintOrID :: SkPaintOrID
  hasForeground :: bool
  getForegroundPaintOrID :: SkPaintOrID
  getShadows :: "skt_TextShadow list"

text \<open>
  The fields of \<^verbatim>\<open>txt::TextStyle\<close> and \<^verbatim>\<open>txt::TextShadow\<close> that \<^verbatim>\<open>SkiaToTxt\<close>
  assigns (\<^verbatim>\<open>locale\<close> is \<open>locale_name\<close>). The default-constructed \<^verbatim>\<open>TextStyle\<close> is
  declared outside this file: it is the parameter \<open>txt0\<close>.
\<close>

record TextShadow =
  shadow_color :: SkColor
  shadow_offset :: SkPoint
  shadow_blur_sigma :: double

record TextStyle =
  color :: SkColor
  decoration :: c_int
  decoration_color :: SkColor
  decoration_style :: c_int
  decoration_thickness_multiplier :: double
  font_weight :: FontWeight
  font_style :: FontStyle
  text_baseline :: c_int
  font_families :: "string list"
  font_size :: double
  letter_spacing :: double
  word_spacing :: double
  height :: double
  locale_name :: string
  background :: "SkPaint option"
  background_dl :: "DlPaint option"
  foreground :: "SkPaint option"
  foreground_dl :: "DlPaint option"
  text_shadows :: "TextShadow list"

text \<open>
  An \<^verbatim>\<open>skt::LineMetrics\<close>; its \<^verbatim>\<open>fLineMetrics\<close> is a \<^verbatim>\<open>std::map\<close> from text index to
  \<^verbatim>\<open>StyleMetrics\<close>, given here in iteration order. A \<^verbatim>\<open>StyleMetrics\<close> points to its
  style: the pointee stands for the pointer.
\<close>

record StyleMetrics =
  text_style :: skt_TextStyle
  font_metrics :: SkFontMetrics

record skt_LineMetrics =
  fStartIndex :: size_t
  fEndIndex :: size_t
  fEndExcludingWhitespaces :: size_t
  fEndIncludingNewline :: size_t
  fHardBreak :: bool
  fAscent :: double
  fDescent :: double
  fUnscaledAscent :: double
  fHeight :: double
  fWidth :: double
  fLeft :: double
  fBaseline :: double
  fLineNumber :: size_t
  fLineMetrics :: "(size_t \<times> StyleMetrics) list"

text \<open>
  A \<^verbatim>\<open>txt::RunMetrics\<close> holds the address of a style stored in
  \<^verbatim>\<open>line_metrics_styles_\<close>: the address of element i is the index i.
\<close>

record RunMetrics =
  run_text_style :: nat
  run_font_metrics :: SkFontMetrics

record LineMetrics =
  start_index :: size_t
  end_index :: size_t
  end_excluding_whitespace :: size_t
  end_including_newline :: size_t
  hard_break :: bool
  ascent :: double
  descent :: double
  unscaled_ascent :: double
  line_height :: double
  line_width :: double
  left :: double
  baseline :: double
  line_number :: size_t
  run_metrics :: "size_t \<rightharpoonup> RunMetrics"

text \<open>\<^verbatim>\<open>std::map::emplace\<close>: inserts unless the key is present.\<close>

definition emplace :: "('k \<rightharpoonup> 'v) \<Rightarrow> 'k \<Rightarrow> 'v \<Rightarrow> ('k \<rightharpoonup> 'v)" where
  "emplace m k v = (case m k of None \<Rightarrow> m(k \<mapsto> v) | Some _ \<Rightarrow> m)"

subsection \<open>The wrapped paragraph and the wrapper\<close>

text \<open>
  The wrapped \<^verbatim>\<open>skt::Paragraph\<close> by what it answers: one field per method the wrapper
  calls. \<open>paint\<close> gives the calls the paragraph makes on the painter it is handed.
  \<^verbatim>\<open>layout\<close> changes the paragraph as the layout library decides: it is the parameter
  \<open>layout\<close> of \<open>Layout\<close>. The coordinates and the width these methods take are
  \<^verbatim>\<open>SkScalar\<close>s.
\<close>

type_synonym TextBox = "SkRect \<times> c_int"

record skt_Paragraph =
  getMaxWidth :: SkScalar
  getHeight :: SkScalar
  getLongestLine :: SkScalar
  getMinIntrinsicWidth :: SkScalar
  getMaxIntrinsicWidth :: SkScalar
  getAlphabeticBaseline :: SkScalar
  getIdeographicBaseline :: SkScalar
  didExceedMaxLines :: bool
  getLineMetrics :: "skt_LineMetrics list"
  getRectsForRange :: "size_t \<Rightarrow> size_t \<Rightarrow> c_int \<Rightarrow> c_int \<Rightarrow> TextBox list"
  getRectsForPlaceholders :: "TextBox list"
  getGlyphPositionAtCoordinate :: "SkScalar \<Rightarrow> SkScalar \<Rightarrow> c_int \<times> c_int"
  getWordBoundary :: "size_t \<Rightarrow> size_t \<times> size_t"
  paint :: "SkScalar \<Rightarrow> SkScalar \<Rightarrow> PainterCall list"

record ParagraphSkia =
  m_paragraph :: skt_Paragraph
  m_dl_paints :: "DlPaint list"
  m_line_metrics :: "LineMetrics list option"
  m_line_metrics_styles :: "TextStyle list"

text \<open>The constructor: the cache and the style store start empty.\<close>

definition ParagraphSkia_new :: "skt_Paragraph \<Rightarrow> DlPaint list \<Rightarrow> ParagraphSkia" where
  "ParagraphSkia_new para dl_paints =
     \<lparr>m_paragraph = para, m_dl_paints = dl_paints, m_line_metrics = None,
      m_line_metrics_styles = []\<rparr>"

text \<open>
  The passthrough accessors. Each is a member function: it gets the wrapper and returns
  its result with the wrapper as it leaves it.
\<close>

definition GetMaxWidth :: "ParagraphSkia \<Rightarrow> double \<times> ParagraphSkia" where
  "GetMaxWidth this = (SkScalarToDouble (getMaxWidth (m_paragraph this)), this)"

definition GetHeight :: "ParagraphSkia \<Rightarrow> double \<times> ParagraphSkia" where
  "GetHeight this = (SkScalarToDouble (getHeight (m_paragraph this)), this)"

definition GetLongestLine :: "ParagraphSkia \<Rightarrow> double \<times> ParagraphSkia" where
  "GetLongestLine this = (SkScalarToDouble (getLongestLine (m_paragraph this)), this)"

definition GetMinIntrinsicWidth :: "ParagraphSkia \<Rightarrow> double \<times> ParagraphSkia" where
  "GetMinIntrinsicWidth this = (SkScalarToDouble (getMinIntrinsicWidth (m_paragraph this)), this)"

definition GetMaxIntrinsicWidth :: "ParagraphSkia \<Rightarrow> double \<times> ParagraphSkia" where
  "GetMaxIntrinsicWidth this = (SkScalarToDouble (getMaxIntrinsicWidth (m_paragraph this)), this)"

definition GetAlphabeticBaseline :: "ParagraphSkia \<Rightarrow> double \<times> ParagraphSkia" where
  "GetAlphabeticBaseline this =
     (SkScalarToDouble (getAlphabeticBaseline (m_paragraph this)), this)"

definition GetIdeographicBaseline :: "ParagraphSkia \<Rightarrow> double \<times> ParagraphSkia" where
  "GetIdeographicBaseline this =
     (SkScalarToDouble (getIdeographicBaseline (m_paragraph this)), this)"

definition DidExceedMaxLines :: "ParagraphSkia \<Rightarrow> bool \<times> ParagraphSkia" where
  "DidExceedMaxLines this = (didExceedMaxLines (m_paragraph this), this)"

subsection \<open>SkiaToTxt\<close>

definition SkiaToTxt_background ::
  "ParagraphSkia \<Rightarrow> skt_TextStyle \<Rightarrow> TextStyle \<Rightarrow> error + TextStyle" where
  "SkiaToTxt_background this skia txt =
     (if hasBackground skia then
        (case getBackgroundPaintOrID skia of
           HoldsSkPaint p \<Rightarrow> Inr (txt\<lparr>background := Some p\<rparr>)
         | HoldsPaintID i \<Rightarrow>
             (case vector_at (m_dl_paints this) (size_t_of_int i) of
                Inl e \<Rightarrow> Inl e
              | Inr d \<Rightarrow> Inr (txt\<lparr>background_dl := Some d\<rparr>)))
      else Inr txt)"

definition SkiaToTxt_foreground ::
  "ParagraphSkia \<Rightarrow> skt_TextStyle \<Rightarrow> TextStyle \<Rightarrow> error + TextStyle" where
  "SkiaToTxt_foreground this skia txt =
     (if hasForeground skia then
        (case getForegroundPaintOrID skia of
           HoldsSkPaint p \<Rightarrow> Inr (txt\<lparr>foreground := Some p\<rparr>)
         | HoldsPaintID i \<Rightarrow>
             (case vector_at (m_dl_paints this) (size_t_of_int i) of
                Inl e \<Rightarrow> Inl e
              | Inr d \<Rightarrow> Inr (txt\<lparr>foreground_dl := Some d\<rparr>)))
      else Inr txt)"

definition SkiaToTxt_shadow :: "skt_TextShadow \<Rightarrow> TextShadow" where
  "SkiaToTxt_shadow skia_shadow =
     \<lparr>shadow_color = fColor skia_shadow, shadow_offset = fOffset skia_shadow,
      shadow_blur_sigma = fBlurSigma skia_shadow\<rparr>"

text \<open>
  The unconditional assignments of \<^verbatim>\<open>SkiaToTxt\<close>, from the colour to the locale, on the
  default-constructed style \<open>txt0\<close>; \<open>fw\<close> is the result of \<open>GetTxtFontWeight\<close>. The
  font families are appended to those \<open>txt0\<close> has.
\<close>

definition SkiaToTxt_fields :: "TextStyle \<Rightarrow> FontWeight \<Rightarrow> skt_TextStyle \<Rightarrow> TextStyle" where
  "SkiaToTxt_fields txt0 fw skia =
     txt0
       \<lparr>color := getColor skia,
        decoration := getDecorationType skia,
        decoration_color := getDecorationColor skia,
        decoration_style := getDecorationStyle skia,
        decoration_thickness_multiplier :=
          SkScalarToDouble (getDecorationThicknessMultiplier skia),
        font_weight := fw,
        font_style := GetTxtFontStyle (slant (getFontStyle skia)),
        text_baseline := getTextBaseline skia,
        font_families := font_families txt0 @ map c_str (getFontFamilies skia),
        font_size := SkScalarToDouble (getFontSize skia),
        letter_spacing := SkScalarToDouble (getLetterSpacing skia),
        word_spacing := SkScalarToDouble (getWordSpacing skia),
        height := SkScalarToDouble (getTextHeight skia),
        locale_name := c_str (getLocale skia)\<rparr>"

text \<open>
  \<^verbatim>\<open>SkiaToTxt\<close> is a member function: it gets the wrapper \<open>this\<close> and returns the converted
  style with the wrapper as it leaves it. The shadows replace those of \<open>txt0\<close>.
\<close>

definition SkiaToTxt ::
  "TextStyle \<Rightarrow> ParagraphSkia \<Rightarrow> skt_TextStyle \<Rightarrow> error + (TextStyle \<times> ParagraphSkia)" where
  "SkiaToTxt txt0 this skia =
     (case GetTxtFontWeight (weight (getFontStyle skia)) of
        Inl e \<Rightarrow> Inl e
      | Inr fw \<Rightarrow>
          (case SkiaToTxt_background this skia (SkiaToTxt_fields txt0 fw skia) of
             Inl e \<Rightarrow> Inl e
           | Inr txt \<Rightarrow>
               (case SkiaToTxt_foreground this skia txt of
                  Inl e \<Rightarrow> Inl e
                | Inr txt \<Rightarrow>
                    Inr (txt\<lparr>text_shadows := map SkiaToTxt_shadow (getShadows skia)\<rparr>, this))))"

subsection \<open>GetLineMetrics and Layout\<close>

text \<open>
  The inner loop of \<^verbatim>\<open>GetLineMetrics\<close> over the runs of one line: each converted style
  is pushed onto \<^verbatim>\<open>line_metrics_styles_\<close> and the run's metrics, holding the address of
  that last element, are emplaced in the line's \<^verbatim>\<open>run_metrics\<close>. \<open>txtm\<close> is the line
  under construction (in the source a reference to the last element of the cache).
\<close>

fun GetLineMetrics_runs ::
  "TextStyle \<Rightarrow> (size_t \<times> StyleMetrics) list \<Rightarrow> ParagraphSkia \<times> LineMetrics \<Rightarrow>
   error + (ParagraphSkia \<times> LineMetrics)" where
  "GetLineMetrics_runs txt0 [] (this, txtm) = Inr (this, txtm)"
| "GetLineMetrics_runs txt0 (sk_iter # rest) (this, txtm) =
     (let sk_style_metrics = snd sk_iter in
      case SkiaToTxt txt0 this (text_style sk_style_metrics) of
        Inl e \<Rightarrow> Inl e
      | Inr (style, this) \<Rightarrow>
          let this = this\<lparr>m_line_metrics_styles := m_line_metrics_styles this @ [style]\<rparr>;
              back = length (m_line_metrics_styles this) - 1;
              txtm = txtm\<lparr>run_metrics :=
                       emplace (run_metrics txtm) (fst sk_iter)
                         \<lparr>run_text_style = back,
                          run_font_metrics = font_metrics sk_style_metrics\<rparr>\<rparr>
          in GetLineMetrics_runs txt0 rest (this, txtm))"

definition LineMetrics_of :: "skt_LineMetrics \<Rightarrow> LineMetrics" where
  "LineMetrics_of skm =
     \<lparr>start_index = fStartIndex skm, end_index = fEndIndex skm,
      end_excluding_whitespace = fEndExcludingWhitespaces skm,
      end_including_newline = fEndIncludingNewline skm, hard_break = fHardBreak skm,
      ascent = fAscent skm, descent = fDescent skm, unscaled_ascent = fUnscaledAscent skm,
      line_height = fHeight skm, line_width = fWidth skm, left = fLeft skm,
      baseline = fBaseline skm, line_number = fLineNumber skm, run_metrics = Map.empty\<rparr>"

text \<open>
  The outer loop over the lines. The source emplaces the line at the back of the cache
  and then fills it through a reference; nothing reads the cache in between, so the line
  is appended here once it is filled.
\<close>

fun GetLineMetrics_lines ::
  "TextStyle \<Rightarrow> skt_LineMetrics list \<Rightarrow> ParagraphSkia \<Rightarrow> error + ParagraphSkia" where
  "GetLineMetrics_lines txt0 [] this = Inr this"
| "GetLineMetrics_lines txt0 (skm # rest) this =
     (case GetLineMetrics_runs txt0 (fLineMetrics skm) (this, LineMetrics_of skm) of
        Inl e \<Rightarrow> Inl e
      | Inr (this, txtm) \<Rightarrow>
          GetLineMetrics_lines txt0 rest
            (this\<lparr>m_line_metrics := map_option (\<lambda>v. v @ [txtm]) (m_line_metrics this)\<rparr>))"

text \<open>
  \<^verbatim>\<open>GetLineMetrics\<close>. \<^verbatim>\<open>emplace()\<close> makes the cache an empty vector; the
  \<^verbatim>\<open>reserve\<close> changes the capacity of the style store only, not its contents. The result
  is the cached vector.
\<close>

definition GetLineMetrics ::
  "TextStyle \<Rightarrow> ParagraphSkia \<Rightarrow> error + (LineMetrics list \<times> ParagraphSkia)" where
  "GetLineMetrics txt0 this =
     (case (if m_line_metrics this = None then
              let metrics = getLineMetrics (m_paragraph this);
                  this = this\<lparr>m_line_metrics := Some []\<rparr>
              in GetLineMetrics_lines txt0 metrics this
            else Inr this) of
        Inl e \<Rightarrow> Inl e
      | Inr this \<Rightarrow>
          (case m_line_metrics this of
             Some cached \<Rightarrow> Inr (cached, this)
           | None \<Rightarrow> Inl BadOptionalAccess))"

text \<open>
  \<^verbatim>\<open>Layout(double width)\<close>: the width is narrowed to the \<^verbatim>\<open>SkScalar\<close> that
  \<^verbatim>\<open>paragraph_->layout\<close> takes.
\<close>

definition Layout ::
  "(double \<Rightarrow> SkScalar) \<Rightarrow> (SkScalar \<Rightarrow> skt_Paragraph \<Rightarrow> skt_Paragraph) \<Rightarrow> ParagraphSkia \<Rightarrow>
   double \<Rightarrow> ParagraphSkia" where
  "Layout narrow layout this w =
     (let this = this\<lparr>m_line_metrics := None\<rparr>;
          this = this\<lparr>m_line_metrics_styles := []\<rparr>
      in this\<lparr>m_paragraph := layout (narrow w) (m_paragraph this)\<rparr>)"

subsection \<open>Paint and the remaining queries\<close>

text \<open>
  \<^verbatim>\<open>Paint(builder, double x, double y)\<close>: the coordinates are narrowed to the
  \<^verbatim>\<open>SkScalar\<close>s that \<^verbatim>\<open>paragraph_->paint\<close> takes.
\<close>

definition Paint ::
  "(double \<Rightarrow> SkScalar) \<Rightarrow> bool \<Rightarrow> DlPaint \<Rightarrow> ParagraphSkia \<Rightarrow> DisplayListBuilder \<Rightarrow> double \<Rightarrow>
   double \<Rightarrow> error + (bool \<times> DisplayListBuilder \<times> ParagraphSkia)" where
  "Paint narrow debug paint0 this builder x y =
     (let painter = \<lparr>m_builder = builder, m_painter_dl_paints = m_dl_paints this\<rparr> in
      case painter_calls debug paint0 painter
             (paint (m_paragraph this) (narrow x) (narrow y)) of
        Inl e \<Rightarrow> Inl e
      | Inr painter \<Rightarrow> Inr (True, m_builder painter, this))"

definition GetRectsForRange ::
  "ParagraphSkia \<Rightarrow> size_t \<Rightarrow> size_t \<Rightarrow> c_int \<Rightarrow> c_int \<Rightarrow> TextBox list \<times> ParagraphSkia" where
  "GetRectsForRange this start end' rect_height_style rect_width_style =
     (let skia_boxes =
            getRectsForRange (m_paragraph this) start end' rect_height_style rect_width_style
      in (map (\<lambda>skia_box. (fst skia_box, snd skia_box)) skia_boxes, this))"

definition GetRectsForPlaceholders :: "ParagraphSkia \<Rightarrow> TextBox list \<times> ParagraphSkia" where
  "GetRectsForPlaceholders this =
     (let skia_boxes = getRectsForPlaceholders (m_paragraph this)
      in (map (\<lambda>skia_box. (fst skia_box, snd skia_box)) skia_boxes, this))"

definition GetGlyphPositionAtCoordinate ::
  "(double \<Rightarrow> SkScalar) \<Rightarrow> ParagraphSkia \<Rightarrow> double \<Rightarrow> double \<Rightarrow>
   (size_t \<times> c_int) \<times> ParagraphSkia" where
  "GetGlyphPositionAtCoordinate narrow this dx dy =
     (let skia_pos = getGlyphPositionAtCoordinate (m_paragraph this) (narrow dx) (narrow dy)
      in ((size_t_of_int (fst skia_pos), snd skia_pos), this))"

definition GetWordBoundary :: "ParagraphSkia \<Rightarrow> size_t \<Rightarrow> (size_t \<times> size_t) \<times> ParagraphSkia" where
  "GetWordBoundary this offset =
     (let range = getWordBoundary (m_paragraph this) offset
      in ((fst range, snd range), this))"

subsection \<open>Sequences of calls on a wrapper\<close>

text \<open>
  What the file takes from outside: the build mode, the default-constructed paint and
  text style, the narrowing of a \<^verbatim>\<open>double\<close> to an \<^verbatim>\<open>SkScalar\<close>, and the layout
  library's \<^verbatim>\<open>layout\<close>.
\<close>

record Externals =
  ext_debug :: bool
  ext_DlPaint :: DlPaint
  ext_TextStyle :: TextStyle
  ext_narrow :: "double \<Rightarrow> SkScalar"
  ext_layout :: "SkScalar \<Rightarrow> skt_Paragraph \<Rightarrow> skt_Paragraph"

datatype Call =
    Call_GetMaxWidth
  | Call_GetHeight
  | Call_GetLongestLine
  | Call_GetLineMetrics
  | Call_GetMinIntrinsicWidth
  | Call_GetMaxIntrinsicWidth
  | Call_GetAlphabeticBaseline
  | Call_GetIdeographicBaseline
  | Call_DidExceedMaxLines
  | Call_Layout double
  | Call_Paint DisplayListBuilder double double
  | Call_GetRectsForRange size_t size_t c_int c_int
  | Call_GetRectsForPlaceholders
  | Call_GetGlyphPositionAtCoordinate double double
  | Call_GetWordBoundary size_t

text \<open>The wrapper after one call of a public member function.\<close>

fun step :: "Externals \<Rightarrow> ParagraphSkia \<Rightarrow> Call \<Rightarrow> error + ParagraphSkia" where
  "step X this Call_GetMaxWidth = Inr (snd (GetMaxWidth this))"
| "step X this Call_GetHeight = Inr (snd (GetHeight this))"
| "step X this Call_GetLongestLine = Inr (snd (GetLongestLine this))"
| "step X this Call_GetLineMetrics =
     (case GetLineMetrics (ext_TextStyle X) this of Inl e \<Rightarrow> Inl e | Inr r \<Rightarrow> Inr (snd r))"
| "step X this Call_GetMinIntrinsicWidth = Inr (snd (GetMinIntrinsicWidth this))"
| "step X this Call_GetMaxIntrinsicWidth = Inr (snd (GetMaxIntrinsicWidth this))"
| "step X this Call_GetAlphabeticBaseline = Inr (snd (GetAlphabeticBaseline this))"
| "step X this Call_GetIdeographicBaseline = Inr (snd (GetIdeographicBaseline this))"
| "step X this Call_DidExceedMaxLines = Inr (snd (DidExceedMaxLines this))"
| "step X this (Call_Layout w) = Inr (Layout (ext_narrow X) (ext_layout X) this w)"
| "step X this (Call_Paint builder x y) =
     (case Paint (ext_narrow X) (ext_debug X) (ext_DlPaint X) this builder x y of
        Inl e \<Rightarrow> Inl e
      | Inr r \<Rightarrow> Inr (snd (snd r)))"
| "step X this (Call_GetRectsForRange start end' h w) =
     Inr (snd (GetRectsForRange this start end' h w))"
| "step X this Call_GetRectsForPlaceholders = Inr (snd (GetRectsForPlaceholders this))"
| "step X this (Call_GetGlyphPositionAtCoordinate dx dy) =
     Inr (snd (GetGlyphPositionAtCoordinate (ext_narrow X) this dx dy))"
| "step X this (Call_GetWordBoundary offset) = Inr (snd (GetWordBoundary this offset))"

fun steps :: "Externals \<Rightarrow> ParagraphSkia \<Rightarrow> Call list \<Rightarrow> error + ParagraphSkia" where
  "steps X this [] = Inr this"
| "steps X this (c # cs) =
     (case step X this c of Inl e \<Rightarrow> Inl e | Inr this' \<Rightarrow> steps X this' cs)"

text \<open>
  The conversion of a paragraph's line metrics from scratch: the loop of
  \<^verbatim>\<open>GetLineMetrics\<close> run on an empty cache and an empty style store.
\<close>

definition converted ::
  "TextStyle \<Rightarrow> DlPaint list \<Rightarrow> skt_Paragraph \<Rightarrow> error + (LineMetrics list \<times> TextStyle list)" where
  "converted txt0 dl_paints para =
     (case GetLineMetrics_lines txt0 (getLineMetrics para)
             \<lparr>m_paragraph = para, m_dl_paints = dl_paints, m_line_metrics = Some [],
              m_line_metrics_styles = []\<rparr> of
        Inl e \<Rightarrow> Inl e
      | Inr this \<Rightarrow>
          (case m_line_metrics this of
             Some cached \<Rightarrow> Inr (cached, m_line_metrics_styles this)
           | None \<Rightarrow> Inl BadOptionalAccess))"

text \<open>
  The cache and its style store belong together: both empty, or both the conversion,
  from scratch, of the line metrics of the wrapped paragraph.
\<close>

definition cache_coherent :: "TextStyle \<Rightarrow> ParagraphSkia \<Rightarrow> bool" where
  "cache_coherent txt0 this =
     (case m_line_metrics this of
        None \<Rightarrow> m_line_metrics_styles this = []
      | Some cached \<Rightarrow>
          converted txt0 (m_dl_paints this) (m_paragraph this) =
            Inr (cached, m_line_metrics_styles this))"

text \<open>
  What one call may do to the pair of cache and style store: leave both as they are,
  clear both, or fill both from scratch starting from both empty.
\<close>

definition cache_transition :: "TextStyle \<Rightarrow> ParagraphSkia \<Rightarrow> ParagraphSkia \<Rightarrow> bool" where
  "cache_transition txt0 this this' =
     ((m_line_metrics this' = m_line_metrics this \<and>
       m_line_metrics_styles this' = m_line_metrics_styles this) \<or>
      (m_line_metrics this' = None \<and> m_line_metrics_styles this' = []) \<or>
      (m_line_metrics this = None \<and> m_line_metrics_styles this = [] \<and>
       (case m_line_metrics this' of
          None \<Rightarrow> False
        | Some cached \<Rightarrow>
            converted txt0 (m_dl_paints this') (m_paragraph this') =
              Inr (cached, m_line_metrics_styles this'))))"

text \<open>
  The precondition on a style: the paint identifiers it holds for a background or a
  foreground that it has are within the palette.
\<close>

definition paint_ids_in_bounds :: "DlPaint list \<Rightarrow> skt_TextStyle \<Rightarrow> bool" where
  "paint_ids_in_bounds dl_paints skia =
     ((if hasBackground skia then
         (case getBackgroundPaintOrID skia of
            HoldsSkPaint p \<Rightarrow> True
          | HoldsPaintID i \<Rightarrow> size_t_of_int i < length dl_paints)
       else True) \<and>
      (if hasForeground skia then
         (case getForegroundPaintOrID skia of
            HoldsSkPaint p \<Rightarrow> True
          | HoldsPaintID i \<Rightarrow> size_t_of_int i < length dl_paints)
       else True))"

text \<open>
  The precondition of the conversion of line metrics: in every style of every run the
  paint identifiers are within the palette and the font weight can be reduced by 100.
\<close>

definition style_ok :: "DlPaint list \<Rightarrow> skt_TextStyle \<Rightarrow> bool" where
  "style_ok dl_paints skia =
     (paint_ids_in_bounds dl_paints skia \<and> INT_MIN + 100 \<le> sint (weight (getFontStyle skia)))"

definition metrics_ok :: "DlPaint list \<Rightarrow> skt_LineMetrics list \<Rightarrow> bool" where
  "metrics_ok dl_paints metrics =
     list_all (\<lambda>skm. list_all (\<lambda>sk_iter. style_ok dl_paints (text_style (snd sk_iter)))
       (fLineMetrics skm)) metrics"

text \<open>A wrapper just constructed or just laid out: cache and style store are empty.\<close>

definition fresh :: "ParagraphSkia \<Rightarrow> bool" where
  "fresh this = (m_line_metrics this = None \<and> m_line_metrics_styles this = [])"

fun is_Layout :: "Call \<Rightarrow> bool" where
  "is_Layout (Call_Layout w) = True"
| "is_Layout c = False"

text \<open>A sequence of calls without a \<^verbatim>\<open>Layout\<close>.\<close>

fun no_Layout :: "Call list \<Rightarrow> bool" where
  "no_Layout [] = True"
| "no_Layout (c # cs) = (\<not> is_Layout c \<and> no_Layout cs)"

section \<open>Concrete data\<close>

text \<open>
  Paints, styles, a decoration, a painter, a rectangle, a one-line paragraph and the
  outside of the file, to evaluate the code on.
\<close>

definition example_DlPaint :: DlPaint where
  "example_DlPaint =
     \<lparr>paint_DrawStyle = kFill, paint_AntiAlias = False, paint_Color = 0xFF000000,
      paint_StrokeWidth = Finite 0, paint_PathEffect = None, paint_MaskFilter = None\<rparr>"

definition example_TextStyle :: TextStyle where
  "example_TextStyle =
     \<lparr>color = 0xFFFFFFFF, decoration = 0, decoration_color = 0, decoration_style = 0,
      decoration_thickness_multiplier = Finite 1, font_weight = FontWeight 3,
      font_style = FontStyle_normal, text_baseline = 0, font_families = [''sans-serif''],
      font_size = Finite 14, letter_spacing = Finite 0, word_spacing = Finite 0,
      height = Finite 1, locale_name = [], background = None, background_dl = None,
      foreground = None, foreground_dl = None, text_shadows = []\<rparr>"

definition example_skt_TextStyle :: skt_TextStyle where
  "example_skt_TextStyle =
     \<lparr>getColor = 0xFF112233, getDecorationType = 1, getDecorationColor = 0xFF445566,
      getDecorationStyle = 0, getDecorationThicknessMultiplier = Finite 1,
      getFontStyle = \<lparr>weight = 700, width = 5, slant = kOblique_Slant\<rparr>,
      getTextBaseline = 0, getFontFamilies = [''Roboto''], getFontSize = Finite 12,
      getLetterSpacing = Finite 0, getWordSpacing = Finite 0, getTextHeight = Finite 1,
      getLocale = ''en'', hasBackground = True, getBackgroundPaintOrID = HoldsPaintID 0,
      hasForeground = False, getForegroundPaintOrID = HoldsPaintID 0, getShadows = []\<rparr>"

text \<open>The example style with a foreground instead of a background, of identifier 5.\<close>

definition example_foreground_style :: skt_TextStyle where
  "example_foreground_style =
     example_skt_TextStyle
       \<lparr>hasBackground := False, hasForeground := True,
        getForegroundPaintOrID := HoldsPaintID 5\<rparr>"

definition example_DecorationStyle :: DecorationStyle where
  "example_DecorationStyle =
     \<lparr>decor_getColor = 0xFFFF0000, decor_getStrokeWidth = Finite 2,
      decor_getDashPathEffect = Some \<lparr>fOnLength = Finite 4, fOffLength = Finite 1\<rparr>\<rparr>"

definition example_painter :: DisplayListParagraphPainter where
  "example_painter = \<lparr>m_builder = [Save], m_painter_dl_paints = [example_DlPaint]\<rparr>"

definition example_rect :: SkRect where
  "example_rect = SkRect (Finite 0) (Finite 0) (Finite 10) (Finite 5)"

definition example_line :: skt_LineMetrics where
  "example_line =
     \<lparr>fStartIndex = 0, fEndIndex = 5, fEndExcludingWhitespaces = 5, fEndIncludingNewline = 5,
      fHardBreak = True, fAscent = Finite 10, fDescent = Finite 3, fUnscaledAscent = Finite 10,
      fHeight = Finite 13, fWidth = Finite 40, fLeft = Finite 0, fBaseline = Finite 10,
      fLineNumber = 0,
      fLineMetrics =
        [(0, \<lparr>text_style = example_skt_TextStyle, font_metrics = SkFontMetrics 1\<rparr>)]\<rparr>"

definition example_paragraph :: skt_Paragraph where
  "example_paragraph =
     \<lparr>getMaxWidth = Finite 100, getHeight = Finite 13, getLongestLine = Finite 40,
      getMinIntrinsicWidth = Finite 40, getMaxIntrinsicWidth = Finite 40,
      getAlphabeticBaseline = Finite 10, getIdeographicBaseline = Finite 13,
      didExceedMaxLines = False, getLineMetrics = [example_line],
      getRectsForRange = (\<lambda>a b h w. []), getRectsForPlaceholders = [],
      getGlyphPositionAtCoordinate = (\<lambda>dx dy. (0, 0)),
      getWordBoundary = (\<lambda>offset. (0, 5)),
      paint = (\<lambda>x y. [call_save, call_drawRect example_rect (HoldsPaintID 0), call_restore])\<rparr>"

definition example_Externals :: Externals where
  "example_Externals =
     \<lparr>ext_debug = True, ext_DlPaint = example_DlPaint, ext_TextStyle = example_TextStyle,
      ext_narrow = (\<lambda>d. d),
      ext_layout = (\<lambda>w para. para\<lparr>getMaxWidth := w, getLineMetrics := []\<rparr>)\<rparr>"

definition example_converted_style :: TextStyle where
  "example_converted_style =
     \<lparr>color = 0xFF112233, decoration = 1, decoration_color = 0xFF445566, decoration_style = 0,
      decoration_thickness_multiplier = Finite 1, font_weight = FontWeight 6,
      font_style = FontStyle_italic, text_baseline = 0,
      font_families = [''sans-serif'', ''Roboto''],
      font_size = Finite 12, letter_spacing = Finite 0, word_spacing = Finite 0,
      height = Finite 1, locale_name = ''en'', background = None,
      background_dl = Some example_DlPaint,
      foreground = None, foreground_dl = None, text_shadows = []\<rparr>"

text \<open>
  The example paragraph converted: its line, with the one run pointing to element 0 of
  the style store, and the wrapper holding it.
\<close>

definition example_converted_line :: LineMetrics where
  "example_converted_line =
     \<lparr>start_index = 0, end_index = 5, end_excluding_whitespace = 5, end_including_newline = 5,
      hard_break = True, ascent = Finite 10, descent = Finite 3, unscaled_ascent = Finite 10,
      line_height = Finite 13, line_width = Finite 40, left = Finite 0, baseline = Finite 10,
      line_number = 0,
      run_metrics = [0 \<mapsto> \<lparr>run_text_style = 0, run_font_metrics = SkFontMetrics 1\<rparr>]\<rparr>"

definition example_cached :: ParagraphSkia where
  "example_cached =
     \<lparr>m_paragraph = example_paragraph, m_dl_paints = [example_DlPaint],
      m_line_metrics = Some [example_converted_line],
      m_line_metrics_styles = [example_converted_style]\<rparr>"

section \<open>Font weight and slant\<close>

lemma sdiv_100_nonneg: "0 \<le> (x::int) \<Longrightarrow> x sdiv 100 = x div 100"
  by (simp add: signed_divide_int_def sgn_if)

lemma sdiv_100_neg: "(x::int) < 0 \<Longrightarrow> x sdiv 100 \<le> 0"
  by (simp add: signed_divide_int_def sgn_if)

lemma weight_ordinal_spec_cases:
  "weight_ordinal_spec w = (if w < 100 then 0 else if 900 < w then 8 else (w - 100) div 100)"
proof (cases "w < 100")
  case True
  then have "(w - 100) sdiv 100 \<le> 0" by (simp add: sdiv_100_neg)
  with True show ?thesis by (simp add: weight_ordinal_spec_def clamp_spec_def)
next
  case False
  then have "(w - 100) sdiv 100 = (w - 100) div 100" by (simp add: sdiv_100_nonneg)
  with False show ?thesis by (auto simp: weight_ordinal_spec_def clamp_spec_def)
qed

lemma std_clamp_eq_spec: "lo \<le> hi \<Longrightarrow> std_clamp v lo hi = clamp_spec v lo hi"
  by (auto simp: std_clamp_def clamp_spec_def)

text \<open>
  Claim C2, as amended. For every \<^verbatim>\<open>int\<close> font_weight of at least \<open>INT_MIN + 100\<close>,
  \<open>GetTxtFontWeight\<close> returns the weight whose ordinal is the truncated quotient
  \<open>(font_weight - 100) / 100\<close> clamped to 0..8: ordinal 0 below 100, ordinal 8 above 900, and
  \<open>(font_weight - 100) div 100\<close>, from 0 to 8, on 100..900.
\<close>

theorem GetTxtFontWeight_clamps:
  assumes "INT_MIN + 100 \<le> sint fw"
  shows "GetTxtFontWeight fw = Inr (FontWeight (weight_ordinal_spec (sint fw))) \<and>
         weight_ordinal_spec (sint fw) =
           (if sint fw < 100 then 0
            else if 900 < sint fw then 8
            else (sint fw - 100) div 100)"
proof -
  from assms have "\<not> sint fw - 100 < INT_MIN" by simp
  then have "GetTxtFontWeight fw =
      Inr (FontWeight (std_clamp ((sint fw - 100) sdiv 100) 0 8))"
    by (simp add: GetTxtFontWeight_def w100_def w900_def)
  then show ?thesis
    by (simp add: std_clamp_eq_spec weight_ordinal_spec_def [symmetric] weight_ordinal_spec_cases)
qed

theorem GetTxtFontWeight_clamps_witness:
  "INT_MIN + 100 \<le> sint (450 :: c_int) \<and> GetTxtFontWeight 450 = Inr (FontWeight 3) \<and>
   weight_ordinal_spec 450 = 3"
  using GetTxtFontWeight_clamps [of 450] by (simp add: INT_MIN_def)

text \<open>
  Claim C2 as stated, for every integer, fails at \<open>INT_MIN\<close>: the subtraction
  \<^verbatim>\<open>font_weight - 100\<close> overflows the \<^verbatim>\<open>int\<close>, and no weight of ordinal 0 is returned.
\<close>

theorem GetTxtFontWeight_overflow:
  "GetTxtFontWeight (- 2147483648) = Inl SignedOverflow \<and>
   GetTxtFontWeight (- 2147483648) \<noteq> Inr (FontWeight (weight_ordinal_spec (- 2147483648)))"
  by (simp add: GetTxtFontWeight_def INT_MIN_def)

text \<open>
  Claim C8. \<open>GetTxtFontStyle\<close> maps the upright slant to \<open>FontStyle::normal\<close> and every
  other slant, italic as well as oblique, to \<open>FontStyle::italic\<close>.
\<close>

theorem GetTxtFontStyle_two_valued:
  "GetTxtFontStyle kUpright_Slant = FontStyle_normal \<and>
   GetTxtFontStyle kItalic_Slant = FontStyle_italic \<and>
   GetTxtFontStyle kOblique_Slant = FontStyle_italic \<and>
   (GetTxtFontStyle font_slant = FontStyle_normal) = (font_slant = kUpright_Slant) \<and>
   (GetTxtFontStyle font_slant = FontStyle_italic) = (font_slant \<noteq> kUpright_Slant)"
  by (simp add: GetTxtFontStyle_def)

section \<open>The painter adapter issues what it is given\<close>

text \<open>
  Claim C10. With a null text blob, \<open>drawTextBlob\<close> and \<open>drawTextShadow\<close> return at once:
  the painter, and with it the builder, is as it was.
\<close>

theorem null_blob_issues_nothing:
  "drawTextBlob debug this None x y paint_or_id = Inr this \<and>
   drawTextShadow paint0 this None x y shadow_col blur_sigma = this \<and>
   m_builder (drawTextShadow paint0 this None x y shadow_col blur_sigma) = m_builder this \<and>
   painter_calls debug paint0 this
     [call_drawTextBlob None x y paint_or_id, call_drawTextShadow None x y shadow_col blur_sigma] =
     Inr this"
  by (simp add: drawTextBlob_def drawTextShadow_def)

text \<open>
  Claim C5. Starting from a default paint without path effect and mask filter, the paint
  built by \<open>toDlPaint\<close> carries the decoration's colour and stroke width, and a dash path
  effect exactly when the decoration has one, with its on and off lengths as the
  intervals; the paint \<open>drawTextShadow\<close> draws with carries the given colour, and a blur mask
  filter exactly when \<open>blur_sigma > 0\<close>.
\<close>

theorem toDlPaint_drawTextShadow_attributes:
  assumes "paint_PathEffect paint0 = None" and "paint_MaskFilter paint0 = None"
  shows "paint_Color (toDlPaint paint0 decor_style draw_style) = decor_getColor decor_style \<and>
         paint_StrokeWidth (toDlPaint paint0 decor_style draw_style) =
           decor_getStrokeWidth decor_style \<and>
         paint_PathEffect (toDlPaint paint0 decor_style draw_style) =
           map_option (\<lambda>e. DlDashPathEffect [fOnLength e, fOffLength e] (Finite 0))
             (decor_getDashPathEffect decor_style) \<and>
         (paint_PathEffect (toDlPaint paint0 decor_style draw_style) \<noteq> None) =
           (decor_getDashPathEffect decor_style \<noteq> None) \<and>
         m_builder (drawTextShadow paint0 this (Some b) x y c blur_sigma) =
           m_builder this @
             [DrawTextBlob b x y
                (paint0\<lparr>paint_Color := c,
                        paint_MaskFilter :=
                          (if greater_than_zero blur_sigma
                           then Some (DlBlurMaskFilter kNormal_SkBlurStyle blur_sigma False)
                           else None)\<rparr>)]"
proof -
  have dash: "paint_PathEffect (toDlPaint paint0 decor_style draw_style) =
      map_option (\<lambda>e. DlDashPathEffect [fOnLength e, fOffLength e] (Finite 0))
        (decor_getDashPathEffect decor_style)"
    using assms(1) by (simp add: toDlPaint_def Let_def split: option.split)
  have col: "paint_Color (toDlPaint paint0 decor_style draw_style) = decor_getColor decor_style"
    by (simp add: toDlPaint_def Let_def split: option.split)
  have wid: "paint_StrokeWidth (toDlPaint paint0 decor_style draw_style) =
      decor_getStrokeWidth decor_style"
    by (simp add: toDlPaint_def Let_def split: option.split)
  have shadow: "m_builder (drawTextShadow paint0 this (Some b) x y c blur_sigma) =
      m_builder this @
        [DrawTextBlob b x y
           (paint0\<lparr>paint_Color := c,
                   paint_MaskFilter :=
                     (if greater_than_zero blur_sigma
                      then Some (DlBlurMaskFilter kNormal_SkBlurStyle blur_sigma False)
                      else None)\<rparr>)]"
    using assms(2) by (simp add: drawTextShadow_def issue_def Let_def)
  from dash col wid shadow show ?thesis by simp
qed

theorem toDlPaint_drawTextShadow_attributes_witness:
  "paint_PathEffect example_DlPaint = None \<and> paint_MaskFilter example_DlPaint = None \<and>
   paint_Color (toDlPaint example_DlPaint example_DecorationStyle kStroke) = 0xFFFF0000 \<and>
   paint_StrokeWidth (toDlPaint example_DlPaint example_DecorationStyle kStroke) = Finite 2 \<and>
   paint_PathEffect (toDlPaint example_DlPaint example_DecorationStyle kStroke) =
     Some (DlDashPathEffect [Finite 4, Finite 1] (Finite 0)) \<and>
   m_builder (drawTextShadow example_DlPaint example_painter (Some (SkTextBlob 7)) (Finite 1)
      (Finite 2) 0x80000000 (Finite 3)) =
     [Save, DrawTextBlob (SkTextBlob 7) (Finite 1) (Finite 2)
        (example_DlPaint\<lparr>paint_Color := 0x80000000,
           paint_MaskFilter := Some (DlBlurMaskFilter kNormal_SkBlurStyle (Finite 3) False)\<rparr>)]"
  using toDlPaint_drawTextShadow_attributes
    [of example_DlPaint example_DecorationStyle kStroke example_painter "SkTextBlob 7"
      "Finite 1" "Finite 2" "0x80000000" "Finite 3"]
  by (simp add: example_DlPaint_def example_DecorationStyle_def example_painter_def)

lemma drawTextBlob_in_bounds:
  "size_t_of_int i < length (m_painter_dl_paints this) \<Longrightarrow>
   drawTextBlob debug this (Some b) x y (HoldsPaintID i) =
     Inr (this\<lparr>m_builder :=
       m_builder this @ [DrawTextBlob b x y (m_painter_dl_paints this ! size_t_of_int i)]\<rparr>)"
  by (simp add: drawTextBlob_def std_get_PaintID_def FML_DCHECK_def vector_at_def issue_def)

lemma drawRect_in_bounds:
  "size_t_of_int i < length (m_painter_dl_paints this) \<Longrightarrow>
   drawRect debug this rect (HoldsPaintID i) =
     Inr (this\<lparr>m_builder :=
       m_builder this @ [DrawRect rect (m_painter_dl_paints this ! size_t_of_int i)]\<rparr>)"
  by (simp add: drawRect_def std_get_PaintID_def FML_DCHECK_def vector_at_def issue_def)

text \<open>
  Claim C3, as amended. Given a paint identifier within the palette, \<open>drawTextBlob\<close> (with
  a text blob) and \<open>drawRect\<close> reissue the primitive against the builder with the palette's
  paint of that index. The immediate-paint alternative is not handled: \<^verbatim>\<open>std::get<PaintID>\<close>
  fails and nothing is issued.
\<close>

theorem painter_reissues_by_PaintID:
  assumes "size_t_of_int i < length (m_painter_dl_paints this)"
  shows "drawTextBlob debug this (Some b) x y (HoldsPaintID i) =
           Inr (this\<lparr>m_builder :=
             m_builder this @ [DrawTextBlob b x y (m_painter_dl_paints this ! size_t_of_int i)]\<rparr>) \<and>
         drawRect debug this rect (HoldsPaintID i) =
           Inr (this\<lparr>m_builder :=
             m_builder this @ [DrawRect rect (m_painter_dl_paints this ! size_t_of_int i)]\<rparr>) \<and>
         drawTextBlob debug this (Some b) x y (HoldsSkPaint p) = Inl BadVariantAccess \<and>
         drawRect debug this rect (HoldsSkPaint p) = Inl BadVariantAccess"
  using assms
  by (simp add: drawTextBlob_in_bounds drawRect_in_bounds)
    (simp add: drawTextBlob_def drawRect_def std_get_PaintID_def)

theorem painter_reissues_by_PaintID_witness:
  "size_t_of_int 0 < length (m_painter_dl_paints example_painter) \<and>
   drawTextBlob True example_painter (Some (SkTextBlob 7)) (Finite 1) (Finite 2) (HoldsPaintID 0) =
     Inr \<lparr>m_builder = [Save, DrawTextBlob (SkTextBlob 7) (Finite 1) (Finite 2) example_DlPaint],
          m_painter_dl_paints = [example_DlPaint]\<rparr> \<and>
   drawRect True example_painter example_rect (HoldsPaintID 0) =
     Inr \<lparr>m_builder = [Save, DrawRect example_rect example_DlPaint],
          m_painter_dl_paints = [example_DlPaint]\<rparr>"
  using painter_reissues_by_PaintID
    [of 0 example_painter True "SkTextBlob 7" "Finite 1" "Finite 2" example_rect "SkPaint 0"]
  by (simp add: example_painter_def size_t_of_int_def)

text \<open>
  Claim C3 as stated, both alternatives handled, fails on an immediate paint: neither
  \<open>drawTextBlob\<close> nor \<open>drawRect\<close> reissues the primitive.
\<close>

theorem painter_immediate_paint_counterexample:
  "drawTextBlob True example_painter (Some (SkTextBlob 7)) (Finite 1) (Finite 2)
     (HoldsSkPaint (SkPaint 0)) = Inl BadVariantAccess \<and>
   drawRect True example_painter example_rect (HoldsSkPaint (SkPaint 0)) = Inl BadVariantAccess"
  by (simp add: drawTextBlob_def drawRect_def std_get_PaintID_def)

section \<open>The wrapper\<close>

text \<open>
  Claim C6. Each of the seven geometry queries returns the wrapped paragraph's value,
  converted from \<^verbatim>\<open>SkScalar\<close> to \<^verbatim>\<open>double\<close>, and leaves the wrapper as it was.
\<close>

theorem accessors_pass_through:
  "fst (GetMaxWidth this) = SkScalarToDouble (getMaxWidth (m_paragraph this)) \<and>
   snd (GetMaxWidth this) = this \<and>
   fst (GetHeight this) = SkScalarToDouble (getHeight (m_paragraph this)) \<and>
   snd (GetHeight this) = this \<and>
   fst (GetLongestLine this) = SkScalarToDouble (getLongestLine (m_paragraph this)) \<and>
   snd (GetLongestLine this) = this \<and>
   fst (GetMinIntrinsicWidth this) = SkScalarToDouble (getMinIntrinsicWidth (m_paragraph this)) \<and>
   snd (GetMinIntrinsicWidth this) = this \<and>
   fst (GetMaxIntrinsicWidth this) = SkScalarToDouble (getMaxIntrinsicWidth (m_paragraph this)) \<and>
   snd (GetMaxIntrinsicWidth this) = this \<and>
   fst (GetAlphabeticBaseline this) = SkScalarToDouble (getAlphabeticBaseline (m_paragraph this)) \<and>
   snd (GetAlphabeticBaseline this) = this \<and>
   fst (GetIdeographicBaseline this) =
     SkScalarToDouble (getIdeographicBaseline (m_paragraph this)) \<and>
   snd (GetIdeographicBaseline this) = this"
  by (simp add: GetMaxWidth_def GetHeight_def GetLongestLine_def GetMinIntrinsicWidth_def
      GetMaxIntrinsicWidth_def GetAlphabeticBaseline_def GetIdeographicBaseline_def)

section \<open>SkiaToTxt\<close>

text \<open>The conversion of the example style, evaluated.\<close>

lemma GetTxtFontWeight_700: "GetTxtFontWeight 700 = Inr (FontWeight 6)"
  by (simp add: GetTxtFontWeight_def INT_MIN_def std_clamp_def w100_def w900_def
      signed_divide_int_def)

lemma c_str_Roboto: "c_str ''Roboto'' = ''Roboto''" and c_str_en: "c_str ''en'' = ''en''"
  by (simp_all add: c_str_def)

lemma size_t_of_int_0: "size_t_of_int 0 = 0"
  by (simp add: size_t_of_int_def)

lemma example_SkiaToTxt:
  "m_dl_paints this = [example_DlPaint] \<Longrightarrow>
   SkiaToTxt example_TextStyle this example_skt_TextStyle = Inr (example_converted_style, this)"
  by (simp add: SkiaToTxt_def SkiaToTxt_fields_def example_skt_TextStyle_def GetTxtFontWeight_700
      SkiaToTxt_background_def SkiaToTxt_foreground_def vector_at_def size_t_of_int_0
      example_TextStyle_def example_converted_style_def GetTxtFontStyle_def SkScalarToDouble_def
      c_str_Roboto c_str_en)

lemma example_SkiaToTxt_empty_palette:
  "m_dl_paints this = [] \<Longrightarrow>
   SkiaToTxt example_TextStyle this example_skt_TextStyle = Inl IndexOutOfRange"
  by (simp add: SkiaToTxt_def example_skt_TextStyle_def GetTxtFontWeight_700
      SkiaToTxt_background_def vector_at_def size_t_of_int_0)

lemma SkiaToTxt_this: "SkiaToTxt txt0 this skia = Inr (t, this') \<Longrightarrow> this' = this"
  by (simp add: SkiaToTxt_def split: sum.splits)

lemma SkiaToTxt_background_palette:
  "m_dl_paints this1 = m_dl_paints this2 \<Longrightarrow>
   SkiaToTxt_background this1 skia txt = SkiaToTxt_background this2 skia txt"
  by (simp add: SkiaToTxt_background_def split: SkPaintOrID.split)

lemma SkiaToTxt_foreground_palette:
  "m_dl_paints this1 = m_dl_paints this2 \<Longrightarrow>
   SkiaToTxt_foreground this1 skia txt = SkiaToTxt_foreground this2 skia txt"
  by (simp add: SkiaToTxt_foreground_def split: SkPaintOrID.split)

lemma SkiaToTxt_palette:
  assumes "m_dl_paints this1 = m_dl_paints this2"
  shows "map_sum id fst (SkiaToTxt txt0 this1 skia) = map_sum id fst (SkiaToTxt txt0 this2 skia)"
  by (simp add: SkiaToTxt_def SkiaToTxt_background_palette [OF assms]
      SkiaToTxt_foreground_palette [OF assms] split: sum.splits)

text \<open>
  Claim C9. \<open>SkiaToTxt\<close> is pure and deterministic: two calls on equal input styles, by
  wrappers with the same palette, end alike with equal converted styles, whatever else
  the wrappers hold; and a call leaves the wrapper, the wrapped paragraph included, as it
  was. The input style is passed by constant reference.
\<close>

theorem SkiaToTxt_pure:
  assumes "skia1 = skia2" and "m_dl_paints this1 = m_dl_paints this2"
  shows "map_sum id fst (SkiaToTxt txt0 this1 skia1) =
           map_sum id fst (SkiaToTxt txt0 this2 skia2) \<and>
         (case SkiaToTxt txt0 this1 skia1 of Inl e \<Rightarrow> True | Inr r \<Rightarrow> snd r = this1)"
proof
  from assms show "map_sum id fst (SkiaToTxt txt0 this1 skia1) =
      map_sum id fst (SkiaToTxt txt0 this2 skia2)"
    using SkiaToTxt_palette [of this1 this2 txt0 skia2] by simp
next
  show "case SkiaToTxt txt0 this1 skia1 of Inl e \<Rightarrow> True | Inr r \<Rightarrow> snd r = this1"
  proof (cases "SkiaToTxt txt0 this1 skia1")
    case (Inl e)
    then show ?thesis by simp
  next
    case (Inr r)
    then have "SkiaToTxt txt0 this1 skia1 = Inr (fst r, snd r)" by simp
    then have "snd r = this1" by (rule SkiaToTxt_this)
    with Inr show ?thesis by simp
  qed
qed

theorem SkiaToTxt_pure_witness:
  "example_skt_TextStyle = example_skt_TextStyle \<and>
   m_dl_paints (ParagraphSkia_new example_paragraph [example_DlPaint]) =
     m_dl_paints \<lparr>m_paragraph = example_paragraph\<lparr>getLineMetrics := []\<rparr>,
        m_dl_paints = [example_DlPaint], m_line_metrics = Some [],
        m_line_metrics_styles = [example_TextStyle]\<rparr> \<and>
   map_sum id fst (SkiaToTxt example_TextStyle
       (ParagraphSkia_new example_paragraph [example_DlPaint]) example_skt_TextStyle) =
     Inr example_converted_style \<and>
   map_sum id fst (SkiaToTxt example_TextStyle
       \<lparr>m_paragraph = example_paragraph\<lparr>getLineMetrics := []\<rparr>,
        m_dl_paints = [example_DlPaint], m_line_metrics = Some [],
        m_line_metrics_styles = [example_TextStyle]\<rparr> example_skt_TextStyle) =
     Inr example_converted_style"
  using SkiaToTxt_pure [of example_skt_TextStyle example_skt_TextStyle
      "ParagraphSkia_new example_paragraph [example_DlPaint]"
      "\<lparr>m_paragraph = example_paragraph\<lparr>getLineMetrics := []\<rparr>,
        m_dl_paints = [example_DlPaint], m_line_metrics = Some [],
        m_line_metrics_styles = [example_TextStyle]\<rparr>" example_TextStyle]
  by (simp add: ParagraphSkia_new_def example_SkiaToTxt)

subsection \<open>Paint identifiers and the bounds of the palette\<close>

lemma drawTextBlob_out_of_bounds:
  "\<not> size_t_of_int i < length (m_painter_dl_paints this) \<Longrightarrow>
   drawTextBlob debug this (Some b) x y (HoldsPaintID i) =
     Inl (if debug then DCheckFailed else IndexOutOfRange)"
  by (simp add: drawTextBlob_def std_get_PaintID_def FML_DCHECK_def vector_at_def)

lemma drawRect_out_of_bounds:
  "\<not> size_t_of_int i < length (m_painter_dl_paints this) \<Longrightarrow>
   drawRect debug this rect (HoldsPaintID i) =
     Inl (if debug then DCheckFailed else IndexOutOfRange)"
  by (simp add: drawRect_def std_get_PaintID_def FML_DCHECK_def vector_at_def)

lemma SkiaToTxt_background_in_bounds:
  "paint_ids_in_bounds (m_dl_paints this) skia \<Longrightarrow> SkiaToTxt_background this skia txt \<noteq> Inl e"
  by (auto simp: paint_ids_in_bounds_def SkiaToTxt_background_def vector_at_def
      split: if_splits SkPaintOrID.splits)

lemma SkiaToTxt_foreground_in_bounds:
  "paint_ids_in_bounds (m_dl_paints this) skia \<Longrightarrow> SkiaToTxt_foreground this skia txt \<noteq> Inl e"
  by (auto simp: paint_ids_in_bounds_def SkiaToTxt_foreground_def vector_at_def
      split: if_splits SkPaintOrID.splits)

lemma GetTxtFontWeight_not_IndexOutOfRange: "GetTxtFontWeight w \<noteq> Inl IndexOutOfRange"
  by (simp add: GetTxtFontWeight_def Let_def)

lemma SkiaToTxt_in_bounds:
  assumes "paint_ids_in_bounds (m_dl_paints this) skia"
  shows "SkiaToTxt txt0 this skia \<noteq> Inl IndexOutOfRange"
  using GetTxtFontWeight_not_IndexOutOfRange [of "weight (getFontStyle skia)"]
  by (auto simp: SkiaToTxt_def SkiaToTxt_background_in_bounds [OF assms]
      SkiaToTxt_foreground_in_bounds [OF assms] split: sum.splits)

lemma SkiaToTxt_out_of_bounds:
  assumes "hasBackground skia" and "getBackgroundPaintOrID skia = HoldsPaintID k"
    and "\<not> size_t_of_int k < length (m_dl_paints this)"
    and "GetTxtFontWeight (weight (getFontStyle skia)) = Inr fw"
  shows "SkiaToTxt txt0 this skia = Inl IndexOutOfRange"
  using assms by (simp add: SkiaToTxt_def SkiaToTxt_background_def vector_at_def)

lemma SkiaToTxt_background_out_of_bounds:
  assumes "hasBackground skia" and "getBackgroundPaintOrID skia = HoldsPaintID k"
    and "\<not> size_t_of_int k < length (m_dl_paints this)"
  shows "SkiaToTxt_background this skia txt = Inl IndexOutOfRange"
  using assms by (simp add: SkiaToTxt_background_def vector_at_def)

lemma SkiaToTxt_foreground_out_of_bounds:
  assumes "hasForeground skia" and "getForegroundPaintOrID skia = HoldsPaintID k"
    and "\<not> size_t_of_int k < length (m_dl_paints this)"
  shows "SkiaToTxt_foreground this skia txt = Inl IndexOutOfRange"
  using assms by (simp add: SkiaToTxt_foreground_def vector_at_def)

lemma SkiaToTxt_background_error:
  "SkiaToTxt_background this skia txt = Inl e \<Longrightarrow> e = IndexOutOfRange"
  by (auto simp: SkiaToTxt_background_def vector_at_def
      split: if_splits SkPaintOrID.splits)

lemma SkiaToTxt_out_of_bounds_foreground:
  assumes "hasForeground skia" and "getForegroundPaintOrID skia = HoldsPaintID k"
    and "\<not> size_t_of_int k < length (m_dl_paints this)"
    and "GetTxtFontWeight (weight (getFontStyle skia)) = Inr fw"
  shows "SkiaToTxt txt0 this skia = Inl IndexOutOfRange"
proof (cases "SkiaToTxt_background this skia (SkiaToTxt_fields txt0 fw skia)")
  case (Inl e)
  then have "e = IndexOutOfRange" by (rule SkiaToTxt_background_error)
  with Inl assms(4) show ?thesis by (simp add: SkiaToTxt_def)
next
  case (Inr txt1)
  have "SkiaToTxt_foreground this skia txt1 = Inl IndexOutOfRange"
    using assms(1-3) by (rule SkiaToTxt_foreground_out_of_bounds)
  with Inr assms(4) show ?thesis by (simp add: SkiaToTxt_def)
qed

lemma GetTxtFontWeight_returns:
  "INT_MIN + 100 \<le> sint w \<Longrightarrow> \<exists>fw. GetTxtFontWeight w = Inr fw"
  by (simp add: GetTxtFontWeight_def Let_def)

text \<open>
  Claim C4, as amended. In \<open>drawTextBlob\<close> and \<open>drawRect\<close> the access of the palette
  is guarded by a debug assertion: an identifier out of bounds fails the assertion in a
  debug build, and is an unchecked access past the end in a release build. \<open>SkiaToTxt\<close>
  has no such assertion, neither in its background nor in its foreground conversion: an
  identifier out of bounds, of the background or of the foreground, is an unchecked
  access past the end. With the identifiers within bounds, the painter draws with the
  palette's paint and no access of \<open>SkiaToTxt\<close> is out of range.
\<close>

theorem palette_accesses_checked:
  assumes "\<not> size_t_of_int i < length (m_painter_dl_paints painter)"
    and "size_t_of_int j < length (m_painter_dl_paints painter)"
    and "paint_ids_in_bounds (m_dl_paints this) skia"
    and "hasBackground skia'" and "getBackgroundPaintOrID skia' = HoldsPaintID k"
    and "\<not> size_t_of_int k < length (m_dl_paints this)"
    and "INT_MIN + 100 \<le> sint (weight (getFontStyle skia'))"
    and "hasForeground skia''" and "getForegroundPaintOrID skia'' = HoldsPaintID m"
    and "\<not> size_t_of_int m < length (m_dl_paints this)"
    and "INT_MIN + 100 \<le> sint (weight (getFontStyle skia''))"
  shows "drawTextBlob True painter (Some b) x y (HoldsPaintID i) = Inl DCheckFailed \<and>
         drawRect True painter rect (HoldsPaintID i) = Inl DCheckFailed \<and>
         drawTextBlob False painter (Some b) x y (HoldsPaintID i) = Inl IndexOutOfRange \<and>
         drawRect False painter rect (HoldsPaintID i) = Inl IndexOutOfRange \<and>
         SkiaToTxt_background this skia' txt = Inl IndexOutOfRange \<and>
         SkiaToTxt txt0 this skia' = Inl IndexOutOfRange \<and>
         SkiaToTxt_foreground this skia'' txt = Inl IndexOutOfRange \<and>
         SkiaToTxt txt0 this skia'' = Inl IndexOutOfRange \<and>
         drawTextBlob debug painter (Some b) x y (HoldsPaintID j) =
           Inr (painter\<lparr>m_builder := m_builder painter @
             [DrawTextBlob b x y (m_painter_dl_paints painter ! size_t_of_int j)]\<rparr>) \<and>
         drawRect debug painter rect (HoldsPaintID j) =
           Inr (painter\<lparr>m_builder := m_builder painter @
             [DrawRect rect (m_painter_dl_paints painter ! size_t_of_int j)]\<rparr>) \<and>
         SkiaToTxt txt0 this skia \<noteq> Inl IndexOutOfRange"
proof -
  from GetTxtFontWeight_returns [OF assms(7)] obtain fw where
    fw: "GetTxtFontWeight (weight (getFontStyle skia')) = Inr fw" by blast
  from GetTxtFontWeight_returns [OF assms(11)] obtain fw' where
    fw': "GetTxtFontWeight (weight (getFontStyle skia'')) = Inr fw'" by blast
  have bg: "SkiaToTxt_background this skia' txt = Inl IndexOutOfRange"
    using assms(4-6) by (rule SkiaToTxt_background_out_of_bounds)
  have bg_oob: "SkiaToTxt txt0 this skia' = Inl IndexOutOfRange"
    using assms(4-6) fw by (rule SkiaToTxt_out_of_bounds)
  have fg: "SkiaToTxt_foreground this skia'' txt = Inl IndexOutOfRange"
    using assms(8-10) by (rule SkiaToTxt_foreground_out_of_bounds)
  have fg_oob: "SkiaToTxt txt0 this skia'' = Inl IndexOutOfRange"
    using assms(8-10) fw' by (rule SkiaToTxt_out_of_bounds_foreground)
  show ?thesis
    using assms(1) assms(2) bg bg_oob fg fg_oob SkiaToTxt_in_bounds [OF assms(3), of txt0]
    by (simp add: drawTextBlob_out_of_bounds drawRect_out_of_bounds drawTextBlob_in_bounds
        drawRect_in_bounds)
qed

theorem palette_accesses_checked_witness:
  "\<not> size_t_of_int 1 < length (m_painter_dl_paints example_painter) \<and>
   size_t_of_int 0 < length (m_painter_dl_paints example_painter) \<and>
   paint_ids_in_bounds (m_dl_paints (ParagraphSkia_new example_paragraph [example_DlPaint]))
     example_skt_TextStyle \<and>
   hasBackground (example_skt_TextStyle\<lparr>getBackgroundPaintOrID := HoldsPaintID 5\<rparr>) \<and>
   \<not> size_t_of_int 5 < length (m_dl_paints (ParagraphSkia_new example_paragraph [example_DlPaint])) \<and>
   INT_MIN + 100 \<le>
     sint (weight (getFontStyle (example_skt_TextStyle\<lparr>getBackgroundPaintOrID := HoldsPaintID 5\<rparr>))) \<and>
   hasForeground example_foreground_style \<and> \<not> hasBackground example_foreground_style \<and>
   getForegroundPaintOrID example_foreground_style = HoldsPaintID 5 \<and>
   INT_MIN + 100 \<le> sint (weight (getFontStyle example_foreground_style)) \<and>
   drawTextBlob True example_painter (Some (SkTextBlob 7)) (Finite 1) (Finite 2) (HoldsPaintID 1) =
     Inl DCheckFailed \<and>
   drawRect True example_painter example_rect (HoldsPaintID 1) = Inl DCheckFailed \<and>
   drawTextBlob False example_painter (Some (SkTextBlob 7)) (Finite 1) (Finite 2)
     (HoldsPaintID 1) = Inl IndexOutOfRange \<and>
   drawRect False example_painter example_rect (HoldsPaintID 1) = Inl IndexOutOfRange \<and>
   SkiaToTxt example_TextStyle (ParagraphSkia_new example_paragraph [example_DlPaint])
     (example_skt_TextStyle\<lparr>getBackgroundPaintOrID := HoldsPaintID 5\<rparr>) = Inl IndexOutOfRange \<and>
   SkiaToTxt_foreground (ParagraphSkia_new example_paragraph [example_DlPaint])
     example_foreground_style example_TextStyle = Inl IndexOutOfRange \<and>
   SkiaToTxt example_TextStyle (ParagraphSkia_new example_paragraph [example_DlPaint])
     example_foreground_style = Inl IndexOutOfRange \<and>
   drawRect True example_painter example_rect (HoldsPaintID 0) =
     Inr \<lparr>m_builder = [Save, DrawRect example_rect example_DlPaint],
          m_painter_dl_paints = [example_DlPaint]\<rparr> \<and>
   SkiaToTxt example_TextStyle (ParagraphSkia_new example_paragraph [example_DlPaint])
     example_skt_TextStyle \<noteq> Inl IndexOutOfRange"
  using palette_accesses_checked
    [of 1 example_painter 0 "ParagraphSkia_new example_paragraph [example_DlPaint]"
      example_skt_TextStyle "example_skt_TextStyle\<lparr>getBackgroundPaintOrID := HoldsPaintID 5\<rparr>"
      5 example_foreground_style 5 "SkTextBlob 7" "Finite 1" "Finite 2" example_rect
      example_TextStyle example_TextStyle True]
  by (simp add: example_painter_def size_t_of_int_def ParagraphSkia_new_def
      paint_ids_in_bounds_def example_skt_TextStyle_def example_foreground_style_def INT_MIN_def)

lemma example_SkiaToTxt_foreground_empty_palette:
  "m_dl_paints this = [] \<Longrightarrow>
   SkiaToTxt example_TextStyle this
     (example_skt_TextStyle\<lparr>hasBackground := False, hasForeground := True\<rparr>) =
     Inl IndexOutOfRange"
  by (simp add: SkiaToTxt_def example_skt_TextStyle_def GetTxtFontWeight_700
      SkiaToTxt_background_def SkiaToTxt_foreground_def vector_at_def size_t_of_int_0)

text \<open>
  Claim C4 as stated, every access guarded by a debug assertion, fails in \<open>SkiaToTxt\<close>:
  with an empty palette the background identifier 0 of the example style is read past
  the end, and so is the foreground identifier 0 of the same style with a foreground
  instead of a background; no assertion fails.
\<close>

theorem SkiaToTxt_oob_counterexample:
  "SkiaToTxt example_TextStyle (ParagraphSkia_new example_paragraph []) example_skt_TextStyle =
     Inl IndexOutOfRange \<and>
   SkiaToTxt example_TextStyle (ParagraphSkia_new example_paragraph []) example_skt_TextStyle \<noteq>
     Inl DCheckFailed \<and>
   SkiaToTxt example_TextStyle (ParagraphSkia_new example_paragraph [])
     (example_skt_TextStyle\<lparr>hasBackground := False, hasForeground := True\<rparr>) =
     Inl IndexOutOfRange \<and>
   SkiaToTxt example_TextStyle (ParagraphSkia_new example_paragraph [])
     (example_skt_TextStyle\<lparr>hasBackground := False, hasForeground := True\<rparr>) \<noteq>
     Inl DCheckFailed"
  by (simp add: example_SkiaToTxt_empty_palette example_SkiaToTxt_foreground_empty_palette
      ParagraphSkia_new_def)

section \<open>The line-metrics cache\<close>

subsection \<open>What the loops leave alone\<close>

lemma GetLineMetrics_runs_frame:
  "GetLineMetrics_runs txt0 rs (this, txtm) = Inr (this', txtm') \<Longrightarrow>
   m_paragraph this' = m_paragraph this \<and> m_dl_paints this' = m_dl_paints this \<and>
   m_line_metrics this' = m_line_metrics this"
proof (induction rs arbitrary: this txtm)
  case Nil
  then show ?case by simp
next
  case (Cons r rs)
  from Cons.prems obtain style this1 txtm1 where
    conv: "SkiaToTxt txt0 this (text_style (snd r)) = Inr (style, this1)" and
    rest: "GetLineMetrics_runs txt0 rs
      (this1\<lparr>m_line_metrics_styles := m_line_metrics_styles this1 @ [style]\<rparr>, txtm1) =
      Inr (this', txtm')"
    by (auto simp: Let_def split: sum.splits)
  from conv have "this1 = this" by (rule SkiaToTxt_this)
  with Cons.IH [OF rest] show ?case by simp
qed

lemma GetLineMetrics_lines_frame:
  "GetLineMetrics_lines txt0 ms this = Inr this' \<Longrightarrow>
   m_paragraph this' = m_paragraph this \<and> m_dl_paints this' = m_dl_paints this \<and>
   (m_line_metrics this' = None) = (m_line_metrics this = None)"
proof (induction ms arbitrary: this)
  case Nil
  then show ?case by simp
next
  case (Cons skm ms)
  from Cons.prems obtain this1 txtm where
    runs: "GetLineMetrics_runs txt0 (fLineMetrics skm) (this, LineMetrics_of skm) =
      Inr (this1, txtm)" and
    rest: "GetLineMetrics_lines txt0 ms
      (this1\<lparr>m_line_metrics := map_option (\<lambda>v. v @ [txtm]) (m_line_metrics this1)\<rparr>) = Inr this'"
    by (auto split: sum.splits)
  from GetLineMetrics_runs_frame [OF runs] Cons.IH [OF rest] show ?case by simp
qed

lemma ParagraphSkia_eqI:
  "m_paragraph a = m_paragraph b \<Longrightarrow> m_dl_paints a = m_dl_paints b \<Longrightarrow>
   m_line_metrics a = m_line_metrics b \<Longrightarrow> m_line_metrics_styles a = m_line_metrics_styles b \<Longrightarrow>
   a = (b :: ParagraphSkia)"
  by simp

lemma GetLineMetrics_cached:
  "m_line_metrics this = Some cached \<Longrightarrow> GetLineMetrics txt0 this = Inr (cached, this)"
  by (simp add: GetLineMetrics_def)

lemma GetLineMetrics_fills:
  "GetLineMetrics txt0 this = Inr (lm, this') \<Longrightarrow> m_line_metrics this' = Some lm"
  by (auto simp: GetLineMetrics_def Let_def split: sum.splits option.splits if_splits)

lemma GetLineMetrics_fresh:
  assumes "fresh this"
  shows "GetLineMetrics txt0 this =
     (case converted txt0 (m_dl_paints this) (m_paragraph this) of
        Inl e \<Rightarrow> Inl e
      | Inr r \<Rightarrow> Inr (fst r, this\<lparr>m_line_metrics := Some (fst r), m_line_metrics_styles := snd r\<rparr>))"
proof -
  let ?start = "this\<lparr>m_line_metrics := Some []\<rparr>"
  from assms have none: "m_line_metrics this = None" and empty: "m_line_metrics_styles this = []"
    by (simp_all add: fresh_def)
  from empty have start: "\<lparr>m_paragraph = m_paragraph this, m_dl_paints = m_dl_paints this,
      m_line_metrics = Some [], m_line_metrics_styles = []\<rparr> = ?start"
    by (intro ParagraphSkia_eqI) simp_all
  show ?thesis
  proof (cases "GetLineMetrics_lines txt0 (getLineMetrics (m_paragraph this)) ?start")
    case (Inl e)
    with none show ?thesis by (simp add: GetLineMetrics_def converted_def start)
  next
    case (Inr this1)
    from GetLineMetrics_lines_frame [OF Inr] obtain cached where
      cached: "m_line_metrics this1 = Some cached" and
      para: "m_paragraph this1 = m_paragraph this" and pal: "m_dl_paints this1 = m_dl_paints this"
      by auto
    have "this1 = this\<lparr>m_line_metrics := Some cached,
        m_line_metrics_styles := m_line_metrics_styles this1\<rparr>"
      using cached para pal by (intro ParagraphSkia_eqI) simp_all
    with none Inr cached show ?thesis
      by (simp add: GetLineMetrics_def converted_def start)
  qed
qed

lemma fresh_new: "fresh (ParagraphSkia_new para dl_paints)"
  by (simp add: fresh_def ParagraphSkia_new_def)

lemma fresh_Layout: "fresh (Layout narrow layout this w)"
  by (simp add: fresh_def Layout_def)

lemma Paint_this:
  "Paint narrow debug paint0 this builder x y = Inr r \<Longrightarrow> snd (snd r) = this"
  by (auto simp: Paint_def Let_def split: sum.splits)

lemma step_not_Layout_GetLineMetrics:
  "\<not> is_Layout c \<Longrightarrow> c \<noteq> Call_GetLineMetrics \<Longrightarrow> step X this c = Inr this' \<Longrightarrow> this' = this"
  by (cases c)
    (auto simp: GetMaxWidth_def GetHeight_def GetLongestLine_def GetMinIntrinsicWidth_def
      GetMaxIntrinsicWidth_def GetAlphabeticBaseline_def GetIdeographicBaseline_def
      DidExceedMaxLines_def GetRectsForRange_def GetRectsForPlaceholders_def
      GetGlyphPositionAtCoordinate_def GetWordBoundary_def Let_def
      split: sum.splits dest: Paint_this)

lemma step_cached:
  assumes "m_line_metrics this = Some lm" and "\<not> is_Layout c" and "step X this c = Inr this'"
  shows "this' = this"
proof (cases "c = Call_GetLineMetrics")
  case True
  with assms show ?thesis by (simp add: GetLineMetrics_cached)
next
  case False
  with assms(2) have "\<not> is_Layout c" and "c \<noteq> Call_GetLineMetrics" by simp_all
  then show ?thesis using assms(3) by (rule step_not_Layout_GetLineMetrics)
qed

lemma steps_cached:
  "m_line_metrics this = Some lm \<Longrightarrow> no_Layout cs \<Longrightarrow> steps X this cs = Inr this' \<Longrightarrow>
   this' = this"
proof (induction cs arbitrary: this)
  case Nil
  then show ?case by simp
next
  case (Cons c cs)
  from Cons.prems obtain this1 where
    one: "step X this c = Inr this1" and rest: "steps X this1 cs = Inr this'"
    by (auto split: sum.splits)
  from Cons.prems have "\<not> is_Layout c" by simp
  with Cons.prems(1) have "this1 = this" using one by (rule step_cached)
  with Cons.IH [of this] Cons.prems rest show ?case by simp
qed

subsection \<open>The example, evaluated\<close>

lemma example_GetLineMetrics:
  assumes "fresh this" and "m_dl_paints this = [example_DlPaint]"
    and "getLineMetrics (m_paragraph this) = [example_line]"
  shows "GetLineMetrics example_TextStyle this =
     Inr ([example_converted_line],
          this\<lparr>m_line_metrics := Some [example_converted_line],
                m_line_metrics_styles := [example_converted_style]\<rparr>)"
  using assms
  by (simp add: GetLineMetrics_def fresh_def example_line_def example_SkiaToTxt
      LineMetrics_of_def emplace_def example_converted_line_def)

lemma example_Paint:
  "m_dl_paints this = [example_DlPaint] \<Longrightarrow> m_paragraph this = example_paragraph \<Longrightarrow>
   Paint narrow True paint0 this [] x y =
     Inr (True, [Save, DrawRect example_rect example_DlPaint, Restore], this)"
  by (simp add: Paint_def example_paragraph_def save_def restore_def issue_def
      drawRect_in_bounds size_t_of_int_0)

subsection \<open>The conversion returns\<close>

lemma SkiaToTxt_returns:
  assumes "style_ok (m_dl_paints this) skia"
  shows "\<exists>t. SkiaToTxt txt0 this skia = Inr (t, this)"
proof -
  from assms have ids: "paint_ids_in_bounds (m_dl_paints this) skia"
    and "\<not> sint (weight (getFontStyle skia)) - 100 < INT_MIN"
    by (simp_all add: style_ok_def)
  then obtain fw where fw: "GetTxtFontWeight (weight (getFontStyle skia)) = Inr fw"
    by (simp add: GetTxtFontWeight_def Let_def)
  obtain txt1 where bg: "SkiaToTxt_background this skia (SkiaToTxt_fields txt0 fw skia) = Inr txt1"
    using SkiaToTxt_background_in_bounds [OF ids]
    by (cases "SkiaToTxt_background this skia (SkiaToTxt_fields txt0 fw skia)") auto
  obtain txt2 where fg: "SkiaToTxt_foreground this skia txt1 = Inr txt2"
    using SkiaToTxt_foreground_in_bounds [OF ids]
    by (cases "SkiaToTxt_foreground this skia txt1") auto
  from fw bg fg show ?thesis by (simp add: SkiaToTxt_def)
qed

lemma GetLineMetrics_runs_returns:
  "list_all (\<lambda>sk_iter. style_ok (m_dl_paints this) (text_style (snd sk_iter))) rs \<Longrightarrow>
   \<exists>r. GetLineMetrics_runs txt0 rs (this, txtm) = Inr r"
proof (induction rs arbitrary: this txtm)
  case Nil
  show ?case by simp
next
  case (Cons r rs)
  from Cons.prems have ok: "style_ok (m_dl_paints this) (text_style (snd r))"
    and rest: "list_all (\<lambda>sk_iter. style_ok (m_dl_paints this) (text_style (snd sk_iter))) rs"
    by simp_all
  from SkiaToTxt_returns [OF ok] obtain style where
    conv: "SkiaToTxt txt0 this (text_style (snd r)) = Inr (style, this)" by blast
  let ?this = "this\<lparr>m_line_metrics_styles := m_line_metrics_styles this @ [style]\<rparr>"
  from rest have "list_all (\<lambda>sk_iter. style_ok (m_dl_paints ?this) (text_style (snd sk_iter))) rs"
    by simp
  from Cons.IH [OF this] conv show ?case by (simp add: Let_def)
qed

lemma GetLineMetrics_lines_returns:
  "metrics_ok (m_dl_paints this) ms \<Longrightarrow> \<exists>this'. GetLineMetrics_lines txt0 ms this = Inr this'"
proof (induction ms arbitrary: this)
  case Nil
  show ?case by simp
next
  case (Cons skm ms)
  from Cons.prems have
    line: "list_all (\<lambda>sk_iter. style_ok (m_dl_paints this) (text_style (snd sk_iter)))
      (fLineMetrics skm)" and
    rest: "metrics_ok (m_dl_paints this) ms"
    by (simp_all add: metrics_ok_def)
  from GetLineMetrics_runs_returns [OF line] obtain this1 txtm where
    runs: "GetLineMetrics_runs txt0 (fLineMetrics skm) (this, LineMetrics_of skm) =
      Inr (this1, txtm)" by fastforce
  let ?this = "this1\<lparr>m_line_metrics := map_option (\<lambda>v. v @ [txtm]) (m_line_metrics this1)\<rparr>"
  from GetLineMetrics_runs_frame [OF runs] rest have "metrics_ok (m_dl_paints ?this) ms"
    by simp
  from Cons.IH [OF this] runs show ?case by simp
qed

lemma converted_returns:
  assumes "metrics_ok dl_paints (getLineMetrics para)"
  shows "\<exists>r. converted txt0 dl_paints para = Inr r"
proof -
  let ?start = "\<lparr>m_paragraph = para, m_dl_paints = dl_paints, m_line_metrics = Some [],
    m_line_metrics_styles = []\<rparr>"
  from assms have "metrics_ok (m_dl_paints ?start) (getLineMetrics para)" by simp
  from GetLineMetrics_lines_returns [OF this] obtain this' where
    lines: "GetLineMetrics_lines txt0 (getLineMetrics para) ?start = Inr this'" by blast
  from GetLineMetrics_lines_frame [OF lines] obtain cached where
    "m_line_metrics this' = Some cached" by auto
  with lines show ?thesis by (simp add: converted_def)
qed

subsection \<open>Memoization\<close>

text \<open>
  Claim C7. A wrapper is fresh after its construction and after a \<open>Layout\<close>. On a fresh
  wrapper whose paragraph meets the precondition of the conversion, the first
  \<open>GetLineMetrics\<close> returns the conversion of the wrapped paragraph's line metrics and
  stores it, with the converted styles. A second call returns the same metrics and
  leaves the wrapper as it is, and so does a call after any calls that are not a
  \<open>Layout\<close>; the result is the same when the wrapped paragraph is exchanged for any other:
  the paragraph is not asked again.
\<close>

theorem GetLineMetrics_memoized:
  assumes "fresh this" and "metrics_ok (m_dl_paints this) (getLineMetrics (m_paragraph this))"
    and "no_Layout cs"
  shows "fresh (ParagraphSkia_new para dl_paints) \<and> fresh (Layout narrow layout that w) \<and>
         (\<exists>lm st.
            converted (ext_TextStyle X) (m_dl_paints this) (m_paragraph this) = Inr (lm, st) \<and>
            (let this' = this\<lparr>m_line_metrics := Some lm, m_line_metrics_styles := st\<rparr> in
               GetLineMetrics (ext_TextStyle X) this = Inr (lm, this') \<and>
               GetLineMetrics (ext_TextStyle X) this' = Inr (lm, this') \<and>
               (case steps X this' cs of
                  Inl e \<Rightarrow> True
                | Inr this'' \<Rightarrow>
                    this'' = this' \<and> GetLineMetrics (ext_TextStyle X) this'' = Inr (lm, this')) \<and>
               GetLineMetrics (ext_TextStyle X) (this'\<lparr>m_paragraph := other\<rparr>) =
                 Inr (lm, this'\<lparr>m_paragraph := other\<rparr>)))"
proof -
  from converted_returns [OF assms(2)] obtain lm st where
    conv: "converted (ext_TextStyle X) (m_dl_paints this) (m_paragraph this) = Inr (lm, st)"
    by fastforce
  define this' where "this' = this\<lparr>m_line_metrics := Some lm, m_line_metrics_styles := st\<rparr>"
  have cached: "m_line_metrics this' = Some lm"
    by (simp add: this'_def)
  have first: "GetLineMetrics (ext_TextStyle X) this = Inr (lm, this')"
    by (simp add: GetLineMetrics_fresh [OF assms(1)] conv this'_def)
  from cached have again: "GetLineMetrics (ext_TextStyle X) this' = Inr (lm, this')"
    by (rule GetLineMetrics_cached)
  have later: "case steps X this' cs of
      Inl e \<Rightarrow> True
    | Inr this'' \<Rightarrow> this'' = this' \<and> GetLineMetrics (ext_TextStyle X) this'' = Inr (lm, this')"
  proof (cases "steps X this' cs")
    case (Inl e)
    then show ?thesis by simp
  next
    case (Inr this'')
    with cached assms(3) have "this'' = this'" by (simp add: steps_cached)
    with Inr again show ?thesis by simp
  qed
  from cached have other: "GetLineMetrics (ext_TextStyle X) (this'\<lparr>m_paragraph := other\<rparr>) =
      Inr (lm, this'\<lparr>m_paragraph := other\<rparr>)"
    by (simp add: GetLineMetrics_cached)
  from conv first again later other show ?thesis
    unfolding this'_def Let_def
    by (intro conjI exI [of _ lm] exI [of _ st] fresh_new fresh_Layout)
qed

lemma example_style_ok: "style_ok [example_DlPaint] example_skt_TextStyle"
  by (simp add: style_ok_def paint_ids_in_bounds_def example_skt_TextStyle_def size_t_of_int_0
      INT_MIN_def)

theorem GetLineMetrics_memoized_witness:
  "fresh (ParagraphSkia_new example_paragraph [example_DlPaint]) \<and>
   metrics_ok [example_DlPaint] (getLineMetrics example_paragraph) \<and>
   no_Layout [Call_GetMaxWidth, Call_GetLineMetrics, Call_Paint [] (Finite 0) (Finite 0)] \<and>
   GetLineMetrics example_TextStyle (ParagraphSkia_new example_paragraph [example_DlPaint]) =
     Inr ([example_converted_line], example_cached) \<and>
   converted example_TextStyle [example_DlPaint] example_paragraph =
     Inr ([example_converted_line], [example_converted_style]) \<and>
   steps example_Externals example_cached
     [Call_GetMaxWidth, Call_GetLineMetrics, Call_Paint [] (Finite 0) (Finite 0)] =
     Inr example_cached \<and>
   GetLineMetrics example_TextStyle example_cached = Inr ([example_converted_line], example_cached) \<and>
   GetLineMetrics example_TextStyle
     (example_cached\<lparr>m_paragraph := example_paragraph\<lparr>getLineMetrics := []\<rparr>\<rparr>) =
     Inr ([example_converted_line],
          example_cached\<lparr>m_paragraph := example_paragraph\<lparr>getLineMetrics := []\<rparr>\<rparr>)"
proof -
  let ?new = "ParagraphSkia_new example_paragraph [example_DlPaint]"
  let ?cs = "[Call_GetMaxWidth, Call_GetLineMetrics, Call_Paint [] (Finite 0) (Finite 0)]"
  have txt0: "ext_TextStyle example_Externals = example_TextStyle"
    by (simp add: example_Externals_def)
  have new: "fresh ?new" "m_dl_paints ?new = [example_DlPaint]"
    "getLineMetrics (m_paragraph ?new) = [example_line]"
    by (simp_all add: fresh_def ParagraphSkia_new_def example_paragraph_def)
  have ok: "metrics_ok (m_dl_paints ?new) (getLineMetrics (m_paragraph ?new))"
    by (simp add: new metrics_ok_def example_line_def example_style_ok)
  have calls: "no_Layout ?cs" by simp
  have first: "GetLineMetrics example_TextStyle ?new =
      Inr ([example_converted_line], example_cached)"
    unfolding example_GetLineMetrics [OF new]
    by (simp add: ParagraphSkia_new_def example_cached_def)
  have cached: "?new\<lparr>m_line_metrics := Some [example_converted_line],
      m_line_metrics_styles := [example_converted_style]\<rparr> = example_cached"
    by (simp add: ParagraphSkia_new_def example_cached_def)
  have run: "steps example_Externals example_cached ?cs = Inr example_cached"
    by (simp add: GetMaxWidth_def GetLineMetrics_cached example_Paint example_cached_def
        example_Externals_def)
  from GetLineMetrics_memoized [OF new(1) ok calls,
      of example_paragraph "[example_DlPaint]" "\<lambda>d. d" "\<lambda>w p. p" example_cached "Finite 0"
      example_Externals "example_paragraph\<lparr>getLineMetrics := []\<rparr>"]
  obtain lm st where
    conv: "converted example_TextStyle [example_DlPaint] example_paragraph = Inr (lm, st)" and
    fst: "GetLineMetrics example_TextStyle ?new =
      Inr (lm, ?new\<lparr>m_line_metrics := Some lm, m_line_metrics_styles := st\<rparr>)" and
    oth: "GetLineMetrics example_TextStyle
        (?new\<lparr>m_line_metrics := Some lm, m_line_metrics_styles := st,
           m_paragraph := example_paragraph\<lparr>getLineMetrics := []\<rparr>\<rparr>) =
      Inr (lm, ?new\<lparr>m_line_metrics := Some lm, m_line_metrics_styles := st,
           m_paragraph := example_paragraph\<lparr>getLineMetrics := []\<rparr>\<rparr>)"
    unfolding txt0 Let_def by (auto simp: new(2) ParagraphSkia_new_def)
  from fst first have lm: "lm = [example_converted_line]" by simp
  from fst first have "?new\<lparr>m_line_metrics := Some lm, m_line_metrics_styles := st\<rparr> =
      example_cached" by simp
  then have st: "st = [example_converted_style]"
    by (simp add: ParagraphSkia_new_def example_cached_def)
  from oth have other: "GetLineMetrics example_TextStyle
     (example_cached\<lparr>m_paragraph := example_paragraph\<lparr>getLineMetrics := []\<rparr>\<rparr>) =
     Inr ([example_converted_line],
          example_cached\<lparr>m_paragraph := example_paragraph\<lparr>getLineMetrics := []\<rparr>\<rparr>)"
    unfolding lm st by (simp add: ParagraphSkia_new_def example_cached_def)
  from new(1) ok calls first conv run other show ?thesis
    by (simp add: lm st new(2) ParagraphSkia_new_def GetLineMetrics_cached example_cached_def)
qed

subsection \<open>The cache and the style store change together\<close>

lemma GetLineMetrics_frame:
  assumes "GetLineMetrics txt0 this = Inr (lm, this')"
  shows "m_paragraph this' = m_paragraph this \<and> m_dl_paints this' = m_dl_paints this"
proof (cases "m_line_metrics this")
  case None
  with assms obtain this1 where
    "GetLineMetrics_lines txt0 (getLineMetrics (m_paragraph this))
       (this\<lparr>m_line_metrics := Some []\<rparr>) = Inr this1" and "this' = this1"
    by (auto simp: GetLineMetrics_def Let_def split: sum.splits option.splits)
  with GetLineMetrics_lines_frame [of txt0 _ _ this1] show ?thesis by fastforce
next
  case (Some cached)
  with assms show ?thesis by (simp add: GetLineMetrics_cached)
qed

lemma step_palette:
  assumes "step X this c = Inr this'"
  shows "m_dl_paints this' = m_dl_paints this"
proof (cases "is_Layout c \<or> c = Call_GetLineMetrics")
  case True
  with assms show ?thesis
    by (cases c) (auto simp: Layout_def Let_def split: sum.splits dest: GetLineMetrics_frame)
next
  case False
  then have "\<not> is_Layout c" and "c \<noteq> Call_GetLineMetrics" by simp_all
  then have "this' = this" using assms by (rule step_not_Layout_GetLineMetrics)
  then show ?thesis by simp
qed

lemma steps_palette: "steps X this cs = Inr this' \<Longrightarrow> m_dl_paints this' = m_dl_paints this"
proof (induction cs arbitrary: this)
  case Nil
  then show ?case by simp
next
  case (Cons c cs)
  from Cons.prems obtain this1 where
    one: "step X this c = Inr this1" and rest: "steps X this1 cs = Inr this'"
    by (auto split: sum.splits)
  from Cons.IH [OF rest] step_palette [OF one] show ?case by simp
qed

lemma cache_coherent_fresh: "fresh this \<Longrightarrow> cache_coherent txt0 this"
  by (simp add: fresh_def cache_coherent_def)

lemma GetLineMetrics_transition:
  assumes "cache_coherent txt0 this" and "GetLineMetrics txt0 this = Inr (lm, this')"
  shows "cache_transition txt0 this this' \<and> cache_coherent txt0 this'"
proof (cases "m_line_metrics this")
  case None
  with assms(1) have fr: "fresh this" by (simp add: cache_coherent_def fresh_def)
  from assms(2) obtain st where
    conv: "converted txt0 (m_dl_paints this) (m_paragraph this) = Inr (lm, st)" and
    this': "this' = this\<lparr>m_line_metrics := Some lm, m_line_metrics_styles := st\<rparr>"
    unfolding GetLineMetrics_fresh [OF fr]
    by (cases "converted txt0 (m_dl_paints this) (m_paragraph this)") auto
  with fr show ?thesis
    by (simp add: cache_transition_def cache_coherent_def fresh_def)
next
  case (Some cached)
  with assms(2) have "this' = this" by (simp add: GetLineMetrics_cached)
  with assms(1) show ?thesis by (simp add: cache_transition_def)
qed

lemma step_transition:
  assumes "cache_coherent (ext_TextStyle X) this" and "step X this c = Inr this'"
  shows "cache_transition (ext_TextStyle X) this this' \<and> cache_coherent (ext_TextStyle X) this'"
proof (cases "is_Layout c \<or> c = Call_GetLineMetrics")
  case True
  then show ?thesis
  proof
    assume "is_Layout c"
    then obtain w where "c = Call_Layout w" by (cases c) simp_all
    with assms(2) have "this' = Layout (ext_narrow X) (ext_layout X) this w" by simp
    with fresh_Layout [of "ext_narrow X" "ext_layout X" this w] show ?thesis
      by (simp add: cache_transition_def cache_coherent_fresh) (simp add: fresh_def)
  next
    assume c: "c = Call_GetLineMetrics"
    with assms(2) obtain lm where "GetLineMetrics (ext_TextStyle X) this = Inr (lm, this')"
      by (auto split: sum.splits)
    with assms(1) show ?thesis by (rule GetLineMetrics_transition)
  qed
next
  case False
  then have "\<not> is_Layout c" and "c \<noteq> Call_GetLineMetrics" by simp_all
  then have "this' = this" using assms(2) by (rule step_not_Layout_GetLineMetrics)
  with assms(1) show ?thesis by (simp add: cache_transition_def)
qed

lemma steps_coherent:
  "cache_coherent (ext_TextStyle X) this \<Longrightarrow> steps X this cs = Inr this' \<Longrightarrow>
   cache_coherent (ext_TextStyle X) this'"
proof (induction cs arbitrary: this)
  case Nil
  then show ?case by simp
next
  case (Cons c cs)
  from Cons.prems obtain this1 where
    one: "step X this c = Inr this1" and rest: "steps X this1 cs = Inr this'"
    by (auto split: sum.splits)
  from step_transition [OF Cons.prems(1) one] have "cache_coherent (ext_TextStyle X) this1"
    by simp
  then show ?case using rest by (rule Cons.IH)
qed

text \<open>
  Claim C1. In every state a wrapper reaches from its construction, by any calls of its
  public member functions that return, the cache and the style store are both empty or
  both the conversion from scratch of the wrapped paragraph's line metrics. \<open>Layout\<close>
  empties both; the next \<open>GetLineMetrics\<close> computes both from scratch, from the paragraph as
  laid out; and every call leaves the pair as it was, empties both, or fills both from
  empty.
\<close>

theorem cache_and_styles_together:
  assumes "steps X (ParagraphSkia_new para dl_paints) cs = Inr this"
  shows "cache_coherent (ext_TextStyle X) this \<and>
         fresh (Layout narrow layout this w) \<and>
         GetLineMetrics (ext_TextStyle X) (Layout narrow layout this w) =
           (case converted (ext_TextStyle X) dl_paints (layout (narrow w) (m_paragraph this)) of
              Inl e \<Rightarrow> Inl e
            | Inr r \<Rightarrow>
                Inr (fst r, (Layout narrow layout this w)
                       \<lparr>m_line_metrics := Some (fst r), m_line_metrics_styles := snd r\<rparr>)) \<and>
         (case step X this c of
            Inl e \<Rightarrow> True
          | Inr this' \<Rightarrow>
              cache_transition (ext_TextStyle X) this this' \<and>
              cache_coherent (ext_TextStyle X) this')"
proof -
  have "cache_coherent (ext_TextStyle X) (ParagraphSkia_new para dl_paints)"
    by (rule cache_coherent_fresh) (rule fresh_new)
  then have coherent: "cache_coherent (ext_TextStyle X) this"
    using assms by (rule steps_coherent)
  from steps_palette [OF assms] have palette: "m_dl_paints this = dl_paints"
    by (simp add: ParagraphSkia_new_def)
  have laid_out: "fresh (Layout narrow layout this w)"
    by (rule fresh_Layout)
  have recomputed: "GetLineMetrics (ext_TextStyle X) (Layout narrow layout this w) =
      (case converted (ext_TextStyle X) dl_paints (layout (narrow w) (m_paragraph this)) of
         Inl e \<Rightarrow> Inl e
       | Inr r \<Rightarrow>
           Inr (fst r, (Layout narrow layout this w)
                  \<lparr>m_line_metrics := Some (fst r), m_line_metrics_styles := snd r\<rparr>))"
    unfolding GetLineMetrics_fresh [OF laid_out]
    by (simp add: Layout_def palette)
  have one: "case step X this c of
      Inl e \<Rightarrow> True
    | Inr this' \<Rightarrow>
        cache_transition (ext_TextStyle X) this this' \<and> cache_coherent (ext_TextStyle X) this'"
  proof (cases "step X this c")
    case (Inl e)
    then show ?thesis by simp
  next
    case (Inr this')
    with step_transition [OF coherent Inr] show ?thesis by simp
  qed
  from coherent laid_out recomputed one show ?thesis by simp
qed

theorem cache_and_styles_together_witness:
  "steps example_Externals (ParagraphSkia_new example_paragraph [example_DlPaint])
     [Call_GetLineMetrics, Call_GetHeight] = Inr example_cached \<and>
   cache_coherent example_TextStyle example_cached \<and>
   fresh (Layout (ext_narrow example_Externals) (ext_layout example_Externals) example_cached
     (Finite 50)) \<and>
   cache_transition example_TextStyle example_cached
     (Layout (ext_narrow example_Externals) (ext_layout example_Externals) example_cached
        (Finite 50))"
proof -
  let ?new = "ParagraphSkia_new example_paragraph [example_DlPaint]"
  have txt0: "ext_TextStyle example_Externals = example_TextStyle"
    by (simp add: example_Externals_def)
  have new: "fresh ?new" "m_dl_paints ?new = [example_DlPaint]"
    "getLineMetrics (m_paragraph ?new) = [example_line]"
    by (simp_all add: fresh_def ParagraphSkia_new_def example_paragraph_def)
  have first: "GetLineMetrics example_TextStyle ?new =
      Inr ([example_converted_line], example_cached)"
    unfolding example_GetLineMetrics [OF new]
    by (simp add: ParagraphSkia_new_def example_cached_def)
  have run: "steps example_Externals ?new [Call_GetLineMetrics, Call_GetHeight] =
      Inr example_cached"
    by (simp add: txt0 first GetHeight_def)
  from cache_and_styles_together [OF run, of "ext_narrow example_Externals"
      "ext_layout example_Externals" "Finite 50"
      "Call_Layout (Finite 50)"]
  show ?thesis using run by (simp add: txt0)
qed

end
